theory Spec2Isabelle
  imports Main
begin

section \<open>Python values used by the two provider modules\<close>

text \<open>
  Exceptions are values. \<open>ApiException\<close> stands for whatever a provider SDK call raises;
  the other constructors are the built-in exceptions the modules can raise themselves.
  \<open>ValueError\<close>, \<open>RuntimeError\<close>, \<open>KeyError\<close> and \<open>AttributeError\<close> carry the message,
  the key and the attribute name; the message of a \<open>TypeError\<close> is the interpreter's and
  is left out. \<open>PreconditionError\<close> is the specification's kind of error for an operation
  invoked out of order; the two modules never raise it.
\<close>

datatype py_error =
    ValueError string
  | TypeError
  | KeyError string
  | IndexError
  | StopIteration
  | RuntimeError string
  | AttributeError string
  | PreconditionError
  | ApiException string

text \<open>
  A Python \<open>dict\<close> with string keys and values, in insertion order.
  \<open>dict_get\<close> is the lookup behind \<open>k in d\<close> and \<open>d[k]\<close>; \<open>dict_set\<close> is \<open>d[k] = v\<close>:
  an existing key keeps its position, a new key goes to the end.
\<close>

type_synonym py_dict = "(string \<times> string) list"

fun dict_get :: "py_dict \<Rightarrow> string \<Rightarrow> string option" where
  "dict_get [] k = None"
| "dict_get ((k', v) # d) k = (if k' = k then Some v else dict_get d k)"

fun dict_set :: "py_dict \<Rightarrow> string \<Rightarrow> string \<Rightarrow> py_dict" where
  "dict_set [] k v = [(k, v)]"
| "dict_set ((k', v') # d) k v = (if k' = k then (k, v) # d else (k', v') # dict_set d k v)"

text \<open>\<open>s.startswith(p)\<close> and \<open>sub in s\<close> on strings.\<close>

fun startswith :: "string \<Rightarrow> string \<Rightarrow> bool" where
  "startswith s [] = True"
| "startswith [] (p # ps) = False"
| "startswith (c # cs) (p # ps) = (c = p \<and> startswith cs ps)"

fun str_contains :: "string \<Rightarrow> string \<Rightarrow> bool" where
  "str_contains sub [] = (sub = [])"
| "str_contains sub (c # cs) = (startswith (c # cs) sub \<or> str_contains sub cs)"

text \<open>\<open>sep.join(xs)\<close>.\<close>

fun join :: "string \<Rightarrow> string list \<Rightarrow> string" where
  "join sep [] = []"
| "join sep [x] = x"
| "join sep (x # y # ys) = x @ sep @ join sep (y # ys)"

text \<open>
  \<open>s.split()\<close>: the maximal runs of non-whitespace characters. \<open>isspace\<close> is Python's
  test on the code points below 256, which is what a \<open>char\<close> holds: the ASCII white
  space, the separators 28 to 31, next line (133) and the no-break space (160).
\<close>

definition isspace :: "char \<Rightarrow> bool" where
  "isspace c =
     (let n = (of_char c :: nat)
      in n = 32 \<or> (9 \<le> n \<and> n \<le> 13) \<or> (28 \<le> n \<and> n \<le> 31) \<or> n = 133 \<or> n = 160)"

fun split_ws_from :: "string \<Rightarrow> string \<Rightarrow> string list" where
  "split_ws_from cur [] = (if cur = [] then [] else [rev cur])"
| "split_ws_from cur (c # cs) =
     (if isspace c
      then (if cur = [] then split_ws_from [] cs else rev cur # split_ws_from [] cs)
      else split_ws_from (c # cur) cs)"

definition split_ws :: "string \<Rightarrow> string list" where
  "split_ws s = split_ws_from [] s"

text \<open>
  \<open>s.split(sep)\<close>: cut at the occurrences of \<open>sep\<close>, found from the left and not
  overlapping; an empty separator raises \<open>ValueError\<close>.
\<close>

function split_from :: "string \<Rightarrow> string \<Rightarrow> string \<Rightarrow> string list" where
  "split_from sep cur [] = [rev cur]"
| "split_from sep cur (c # cs) =
     (if sep \<noteq> [] \<and> startswith (c # cs) sep
      then rev cur # split_from sep [] (drop (length sep) (c # cs))
      else split_from sep (c # cur) cs)"
  by pat_completeness auto
termination
  by (relation "measure (\<lambda>(sep, cur, s). length s)") (auto simp: neq_Nil_conv)

definition split :: "string \<Rightarrow> string \<Rightarrow> py_error + string list" where
  "split s sep =
     (if sep = [] then Inl (ValueError ''empty separator'') else Inr (split_from sep [] s))"

text \<open>\<open>xs[1]\<close>, which raises \<open>IndexError\<close> on a list shorter than two.\<close>

fun item1 :: "'a list \<Rightarrow> py_error + 'a" where
  "item1 (x # y # ys) = Inr y"
| "item1 xs = Inl IndexError"

text \<open>\<open>xs.index(x)\<close> for an \<open>x\<close> that occurs in \<open>xs\<close>, and \<open>next(filter(p, xs))\<close>.\<close>

fun index_of :: "'a \<Rightarrow> 'a list \<Rightarrow> nat" where
  "index_of x [] = 0"
| "index_of x (y # ys) = (if y = x then 0 else Suc (index_of x ys))"

fun next_filter :: "('a \<Rightarrow> bool) \<Rightarrow> 'a list \<Rightarrow> py_error + 'a" where
  "next_filter p [] = Inl StopIteration"
| "next_filter p (x # xs) = (if p x then Inr x else next_filter p xs)"

text \<open>\<open>str(n)\<close> of an integer, as an f-string prints it.\<close>

function str_nat :: "nat \<Rightarrow> string" where
  "str_nat n =
     (if n < 10 then [''0123456789'' ! n]
      else str_nat (n div 10) @ [''0123456789'' ! (n mod 10)])"
  by pat_completeness auto
termination
  by (relation "measure id") auto

declare str_nat.simps [simp del]

definition str_int :: "int \<Rightarrow> string" where
  "str_int i = (if i < 0 then ''-'' @ str_nat (nat (- i)) else str_nat (nat i))"

text \<open>The formatting of an optional string inside an f-string: \<open>None\<close> prints as \<open>None\<close>.\<close>

fun fmt :: "string option \<Rightarrow> string" where
  "fmt None = ''None''"
| "fmt (Some s) = s"

section \<open>IBM Code Engine: \<open>ibm/code_engine.py\<close>\<close>

text \<open>
  \<open>self.command\<close> is a string on a scheduler (set by the inherited scheduler mixin) and a
  list on a worker; \<open>create_vm\<close> branches on \<open>type(self.command) is not list\<close>.
\<close>

datatype py_command = CmdStr string | CmdList "string list"

text \<open>The keyword arguments of the SDK calls \<open>create_app\<close> and \<open>create_job_run\<close>.\<close>

record ibm_env_variable =
  ev_type :: string
  ev_reference :: "string option"
  ev_name :: string
  ev_key :: string
  ev_value :: "string option"

record ibm_app_payload =
  ap_project_id :: "string option"
  ap_image_reference :: "string option"
  ap_name :: string
  ap_run_commands :: "string list"
  ap_image_port :: int
  ap_scale_ephemeral_storage_limit :: string
  ap_scale_cpu_limit :: string
  ap_scale_min_instances :: int
  ap_scale_memory_limit :: string
  ap_run_env_variables :: "ibm_env_variable list"

record ibm_job_payload =
  jp_project_id :: "string option"
  jp_image_reference :: "string option"
  jp_name :: string
  jp_run_commands :: "string list"
  jp_scale_ephemeral_storage_limit :: string
  jp_scale_cpu_limit :: string
  jp_scale_memory_limit :: string
  jp_run_env_variables :: "ibm_env_variable list"

datatype ibm_call =
    IbmCreateApp ibm_app_payload
  | IbmGetApp "string option" string
  | IbmCreateConfigMap "string option" string py_dict
  | IbmCreateJobRun ibm_job_payload
  | IbmDeleteJobRun "string option" string
  | IbmDeleteApp "string option" string

text \<open>
  The Code Engine service as the module sees it: the result of a call (the dictionary of
  \<open>response.get_result()\<close>, or the exception the SDK raises) is a function of the calls
  issued so far and of the call itself.
\<close>

type_synonym ibm_service = "ibm_call list \<Rightarrow> ibm_call \<Rightarrow> py_error + py_dict"

text \<open>
  The cluster object, as far as the instances read and write it. The three scheduler
  attributes do not exist until \<open>start_scheduler\<close> assigns them: \<open>None\<close> is an attribute
  that has not been assigned, \<open>Some v\<close> one that holds \<open>v\<close> (\<open>v\<close> may be Python's \<open>None\<close>).
\<close>

record IBMCodeEngineCluster =
  ibm_protocol :: string
  ibm_scheduler_internal_ip :: "string option option"
  ibm_scheduler_external_ip :: "string option option"
  ibm_scheduler_port :: "int option option"

text \<open>
  \<open>IBMCodeEngine\<close>. \<open>ibm_name\<close> and \<open>ibm_command\<close> are the attributes \<open>name\<close> and
  \<open>command\<close>, which the inherited mixins set (the worker sets its own command).
  \<open>ibm_service_url\<close> is the URL given to \<open>set_service_url\<close>.
\<close>

record IBMCodeEngine =
  ibm_image :: "string option"
  ibm_region :: "string option"
  ibm_project_id :: "string option"
  ibm_api_key :: "string option"
  ibm_service_url :: string
  ibm_name :: string
  ibm_command :: py_command

record IBMCodeEngineScheduler = IBMCodeEngine +
  ibm_port :: "int option"
  ibm_internal_ip :: "string option"
  ibm_external_ip :: "string option"
  ibm_address :: "string option"
  ibm_running :: bool

record IBMCodeEngineWorker = IBMCodeEngine +
  ibm_worker_class :: string
  ibm_worker_options :: py_dict

text \<open>
  \<open>IBMCodeEngine.__init__\<close>. \<open>authenticator\<close> is the SDK's \<open>IAMAuthenticator\<close>
  constructor, which may reject the key. The service URL is built with \<open>+\<close>, which raises
  \<open>TypeError\<close> when the region is \<open>None\<close>. No call is issued to the service.
\<close>

definition IBMCodeEngine_init ::
  "(string option \<Rightarrow> py_error + unit) \<Rightarrow> string option \<Rightarrow> string option \<Rightarrow> string option \<Rightarrow>
   string option \<Rightarrow> string \<Rightarrow> py_command \<Rightarrow> py_error + IBMCodeEngine" where
  "IBMCodeEngine_init authenticator image' region project_id api_key name command =
     (case authenticator api_key of
        Inl e \<Rightarrow> Inl e
      | Inr u \<Rightarrow>
          (case region of
             None \<Rightarrow> Inl TypeError
           | Some r \<Rightarrow>
               Inr \<lparr> ibm_image = image', ibm_region = region, ibm_project_id = project_id,
                     ibm_api_key = api_key,
                     ibm_service_url = ''https://api.'' @ r @ ''.codeengine.cloud.ibm.com/v2'',
                     ibm_name = name, ibm_command = command \<rparr>))"

text \<open>
  \<open>IBMCodeEngineWorker.__init__\<close>. \<open>dumps\<close> is \<open>json.dumps\<close> on the worker
  specification \<open>{"cls": ..., "opts": {**worker_options, "name": self.name}}\<close>.
  The scheduler address is read from the cluster attribute \<open>scheduler_internal_ip\<close>,
  which raises \<open>AttributeError\<close> when \<open>start_scheduler\<close> has not assigned it yet.
\<close>

definition ibm_internal_scheduler :: "IBMCodeEngineCluster \<Rightarrow> py_error + string" where
  "ibm_internal_scheduler cluster =
     (case ibm_scheduler_internal_ip cluster of
        None \<Rightarrow> Inl (AttributeError ''scheduler_internal_ip'')
      | Some v \<Rightarrow> Inr (''ws://'' @ fmt v @ '':80''))"

definition IBMCodeEngineWorker_init ::
  "(string option \<Rightarrow> py_error + unit) \<Rightarrow> (string \<times> py_dict \<Rightarrow> string) \<Rightarrow> IBMCodeEngineCluster \<Rightarrow>
   string option \<Rightarrow> string option \<Rightarrow> string option \<Rightarrow> string option \<Rightarrow> string \<Rightarrow>
   string \<Rightarrow> py_dict \<Rightarrow> py_error + IBMCodeEngineWorker" where
  "IBMCodeEngineWorker_init authenticator dumps cluster image' region project_id api_key name
       worker_class worker_options =
     (case IBMCodeEngine_init authenticator image' region project_id api_key name (CmdList []) of
        Inl e \<Rightarrow> Inl e
      | Inr m \<Rightarrow>
          (case ibm_internal_scheduler cluster of
             Inl e \<Rightarrow> Inl e
           | Inr internal_scheduler \<Rightarrow>
               Inr (IBMCodeEngine.extend
                      (m \<lparr> ibm_command := CmdList
                             [''python'', ''-m'', ''distributed.cli.dask_spec'',
                              internal_scheduler,
                              ''--spec'',
                              dumps (worker_class, dict_set worker_options ''name'' name)] \<rparr>)
                      \<lparr> ibm_worker_class = worker_class,
                        ibm_worker_options = worker_options \<rparr>)))"

text \<open>
  \<open>IBMCodeEngineScheduler.__init__\<close> only calls the inherited constructors; the command
  string and \<open>inherited_port\<close> are what the scheduler mixin left in \<open>command\<close> and \<open>port\<close>.
\<close>

definition IBMCodeEngineScheduler_init ::
  "(string option \<Rightarrow> py_error + unit) \<Rightarrow> string option \<Rightarrow> string option \<Rightarrow> string option \<Rightarrow>
   string option \<Rightarrow> string \<Rightarrow> string \<Rightarrow> int option \<Rightarrow> py_error + IBMCodeEngineScheduler" where
  "IBMCodeEngineScheduler_init authenticator image' region project_id api_key name command
       inherited_port =
     (case IBMCodeEngine_init authenticator image' region project_id api_key name (CmdStr command) of
        Inl e \<Rightarrow> Inl e
      | Inr m \<Rightarrow>
          Inr (IBMCodeEngine.extend m
                 \<lparr> ibm_port = inherited_port, ibm_internal_ip = None, ibm_external_ip = None,
                   ibm_address = None, ibm_running = False \<rparr>))"

subsection \<open>\<open>IBMCodeEngine.create_vm\<close>\<close>

text \<open>
  The command of the application: the components of \<open>self.command\<close> from the first one
  that starts with \<open>python\<close>, joined, extended with the protocol and port options and split
  again. \<open>next\<close> raises \<open>StopIteration\<close> when no component starts with \<open>python\<close>.
\<close>

definition ibm_python_command :: "string \<Rightarrow> py_error + string list" where
  "ibm_python_command command =
     (let components = split_ws command in
      case next_filter (\<lambda>x. startswith x ''python'') components of
        Inl e \<Rightarrow> Inl e
      | Inr first \<Rightarrow>
          Inr (split_ws (join '' '' (drop (index_of first components) components)
                         @ '' --protocol ws,tcp --port 8786,8001'')))"

text \<open>
  The two creation payloads; \<open>cfg\<close> is \<open>dask.config.serialize(dask.config.global_config)\<close>.
  The resource limits are literals of the source.
\<close>

definition ibm_create_app_payload ::
  "string \<Rightarrow> 'a IBMCodeEngine_scheme \<Rightarrow> string list \<Rightarrow> ibm_app_payload" where
  "ibm_create_app_payload cfg m python_command =
     \<lparr> ap_project_id = ibm_project_id m,
       ap_image_reference = ibm_image m,
       ap_name = ibm_name m,
       ap_run_commands = python_command,
       ap_image_port = 8786,
       ap_scale_ephemeral_storage_limit = ''1G'',
       ap_scale_cpu_limit = ''0.25'',
       ap_scale_min_instances = 1,
       ap_scale_memory_limit = ''1G'',
       ap_run_env_variables =
         [\<lparr> ev_type = ''literal'', ev_reference = None,
            ev_name = ''DASK_INTERNAL_INHERIT_CONFIG'', ev_key = ''DASK_INTERNAL_INHERIT_CONFIG'',
            ev_value = Some cfg \<rparr>] \<rparr>"

definition ibm_create_job_run_payload ::
  "'a IBMCodeEngine_scheme \<Rightarrow> string list \<Rightarrow> ibm_job_payload" where
  "ibm_create_job_run_payload m python_command =
     \<lparr> jp_project_id = ibm_project_id m,
       jp_image_reference = ibm_image m,
       jp_name = ibm_name m,
       jp_run_commands = python_command,
       jp_scale_ephemeral_storage_limit = ''1G'',
       jp_scale_cpu_limit = ''0.25'',
       jp_scale_memory_limit = ''1G'',
       jp_run_env_variables =
         [\<lparr> ev_type = ''config_map_key_reference'', ev_reference = Some (ibm_name m),
            ev_name = ''DASK_INTERNAL_INHERIT_CONFIG'', ev_key = ''DASK_INTERNAL_INHERIT_CONFIG'',
            ev_value = None \<rparr>] \<rparr>"

text \<open>
  The loop \<open>while True: get_app; if app["status"] == "ready": break; time.sleep(1)\<close>.
  It has no bound: the result is \<open>None\<close> when the loop never ends. An exception of the
  call, or a response without a status, ends it with the error.
\<close>

partial_function (option) ibm_wait_ready ::
  "ibm_service \<Rightarrow> ibm_call \<Rightarrow> ibm_call list \<Rightarrow> ((py_error + py_dict) \<times> ibm_call list) option" where
  "ibm_wait_ready svc get log =
     (case svc log get of
        Inl e \<Rightarrow> Some (Inl e, log @ [get])
      | Inr app \<Rightarrow>
          (case dict_get app ''status'' of
             None \<Rightarrow> Some (Inl (KeyError ''status''), log @ [get])
           | Some st \<Rightarrow>
               if st = ''ready'' then Some (Inr app, log @ [get])
               else ibm_wait_ready svc get (log @ [get])))"

text \<open>
  The \<open>k\<close>-th poll after the calls \<open>log\<close> ends the loop: the call raises, the response has
  no status, or the status is \<open>ready\<close>.
\<close>

definition ibm_poll_stops :: "ibm_service \<Rightarrow> ibm_call \<Rightarrow> ibm_call list \<Rightarrow> nat \<Rightarrow> bool" where
  "ibm_poll_stops svc get log k =
     (case svc (log @ replicate k get) get of
        Inl e \<Rightarrow> True
      | Inr a \<Rightarrow> dict_get a ''status'' = None \<or> dict_get a ''status'' = Some ''ready'')"

text \<open>
  What the loop leaves with when the \<open>k\<close>-th poll ends it: the error of the call, the
  \<open>KeyError\<close> of a response without a status, or the response.
\<close>

definition ibm_poll_result ::
  "ibm_service \<Rightarrow> ibm_call \<Rightarrow> ibm_call list \<Rightarrow> nat \<Rightarrow> py_error + py_dict" where
  "ibm_poll_result svc get log k =
     (case svc (log @ replicate k get) get of
        Inl e \<Rightarrow> Inl e
      | Inr a \<Rightarrow>
          (case dict_get a ''status'' of
             None \<Rightarrow> Inl (KeyError ''status'')
           | Some st \<Rightarrow> Inr a))"

text \<open>\<open>app[key].split("//")[1]\<close>.\<close>

definition ibm_url_host :: "py_dict \<Rightarrow> string \<Rightarrow> py_error + string" where
  "ibm_url_host app key =
     (case dict_get app key of
        None \<Rightarrow> Inl (KeyError key)
      | Some url \<Rightarrow> (case split url ''//'' of Inl e \<Rightarrow> Inl e | Inr parts \<Rightarrow> item1 parts))"

definition ibm_read_urls :: "py_dict \<Rightarrow> py_error + string option \<times> string option" where
  "ibm_read_urls app =
     (case ibm_url_host app ''endpoint_internal'' of
        Inl e \<Rightarrow> Inl e
      | Inr internal_url \<Rightarrow>
          (case ibm_url_host app ''endpoint'' of
             Inl e \<Rightarrow> Inl e
           | Inr public_url \<Rightarrow> Inr (Some internal_url, Some public_url)))"

text \<open>
  What follows the loop: \<open>print(app['name'])\<close>, which raises \<open>KeyError\<close> when the response
  has no name, then the two URL reads and the returned pair.
\<close>

definition ibm_ready_result :: "py_dict \<Rightarrow> py_error + string option \<times> string option" where
  "ibm_ready_result app =
     (case dict_get app ''name'' of
        None \<Rightarrow> Inl (KeyError ''name'')
      | Some printed \<Rightarrow> ibm_read_urls app)"

text \<open>
  \<open>create_vm\<close>. The state is the list of calls issued to the service. The result is
  \<open>None\<close> when the method never returns, otherwise the exception raised or the pair
  returned, with the calls issued. A string command takes the application path (create the
  application, wait until it is ready, print the name and read both URLs from the last
  response); a list command takes the job path, which returns \<open>(None, None)\<close>. The
  \<open>StopIteration\<close> of \<open>next\<close> leaves the coroutine as a \<open>RuntimeError\<close>.
\<close>

definition ibm_create_vm ::
  "ibm_service \<Rightarrow> string \<Rightarrow> 'a IBMCodeEngine_scheme \<Rightarrow> ibm_call list \<Rightarrow>
   ((py_error + string option \<times> string option) \<times> ibm_call list) option" where
  "ibm_create_vm svc cfg m log =
     (case ibm_command m of
        CmdStr command \<Rightarrow>
          (case ibm_python_command command of
             Inl e \<Rightarrow> Some (Inl (RuntimeError ''coroutine raised StopIteration''), log)
           | Inr python_command \<Rightarrow>
               (let create = IbmCreateApp (ibm_create_app_payload cfg m python_command) in
                case svc log create of
                  Inl e \<Rightarrow> Some (Inl e, log @ [create])
                | Inr response \<Rightarrow>
                    (case ibm_wait_ready svc (IbmGetApp (ibm_project_id m) (ibm_name m))
                            (log @ [create]) of
                       None \<Rightarrow> None
                     | Some (Inl e, log') \<Rightarrow> Some (Inl e, log')
                     | Some (Inr app, log') \<Rightarrow> Some (ibm_ready_result app, log'))))
      | CmdList python_command \<Rightarrow>
          (let config_map = IbmCreateConfigMap (ibm_project_id m) (ibm_name m)
                              [(''DASK_INTERNAL_INHERIT_CONFIG'', cfg)] in
           case svc log config_map of
             Inl e \<Rightarrow> Some (Inl e, log @ [config_map])
           | Inr response \<Rightarrow>
               (let job = IbmCreateJobRun (ibm_create_job_run_payload m python_command) in
                case svc (log @ [config_map]) job of
                  Inl e \<Rightarrow> Some (Inl e, log @ [config_map, job])
                | Inr response' \<Rightarrow> Some (Inr (None, None), log @ [config_map, job]))))"

subsection \<open>\<open>IBMCodeEngine.destroy_vm\<close>\<close>

text \<open>
  One delete call, chosen by \<open>"worker" in self.name\<close>; there is no other branch.
  An exception of the SDK propagates.
\<close>

definition ibm_destroy_call :: "'a IBMCodeEngine_scheme \<Rightarrow> ibm_call" where
  "ibm_destroy_call m =
     (if str_contains ''worker'' (ibm_name m)
      then IbmDeleteJobRun (ibm_project_id m) (ibm_name m)
      else IbmDeleteApp (ibm_project_id m) (ibm_name m))"

definition ibm_destroy_vm ::
  "ibm_service \<Rightarrow> 'a IBMCodeEngine_scheme \<Rightarrow> ibm_call list \<Rightarrow>
   (py_error + unit) \<times> ibm_call list" where
  "ibm_destroy_vm svc m log =
     (case svc log (ibm_destroy_call m) of
        Inl e \<Rightarrow> (Inl e, log @ [ibm_destroy_call m])
      | Inr response \<Rightarrow> (Inr (), log @ [ibm_destroy_call m]))"

subsection \<open>\<open>IBMCodeEngineScheduler.start\<close> and \<open>start_scheduler\<close>\<close>

text \<open>
  \<open>wait_for_scheduler\<close> is inherited and not part of this module: it is the parameter
  \<open>wait\<close>, which returns, raises, or never returns (\<open>None\<close>). The state is the cluster
  and the calls issued.
\<close>

definition ibm_start_scheduler ::
  "ibm_service \<Rightarrow> string \<Rightarrow> (IBMCodeEngineScheduler \<Rightarrow> (py_error + unit) option) \<Rightarrow>
   IBMCodeEngineScheduler \<Rightarrow> IBMCodeEngineCluster \<times> ibm_call list \<Rightarrow>
   ((py_error + unit) \<times> IBMCodeEngineScheduler \<times> IBMCodeEngineCluster \<times> ibm_call list) option" where
  "ibm_start_scheduler svc cfg wait self st =
     (case st of (cluster, log) \<Rightarrow>
      (case ibm_create_vm svc cfg self log of
         None \<Rightarrow> None
       | Some (Inl e, log') \<Rightarrow> Some (Inl e, self, cluster, log')
       | Some (Inr (internal_ip, external_ip), log') \<Rightarrow>
           (let self1 = self \<lparr> ibm_internal_ip := internal_ip, ibm_external_ip := external_ip \<rparr>;
                self2 = self1 \<lparr> ibm_address := Some (ibm_protocol cluster @ ''://'' @ fmt external_ip
                                   @ '':'' @ (case ibm_port self1 of None \<Rightarrow> ''None''
                                              | Some p \<Rightarrow> str_int p)) \<rparr> in
            case wait self2 of
              None \<Rightarrow> None
            | Some (Inl e) \<Rightarrow> Some (Inl e, self2, cluster, log')
            | Some (Inr u) \<Rightarrow>
                Some (Inr (), self2 \<lparr> ibm_running := True \<rparr>,
                      cluster \<lparr> ibm_scheduler_internal_ip := Some (ibm_internal_ip self2),
                                ibm_scheduler_external_ip := Some (ibm_external_ip self2),
                                ibm_scheduler_port := Some (ibm_port self2) \<rparr>,
                      log'))))"

definition ibm_start ::
  "ibm_service \<Rightarrow> string \<Rightarrow> (IBMCodeEngineScheduler \<Rightarrow> (py_error + unit) option) \<Rightarrow>
   IBMCodeEngineScheduler \<Rightarrow> IBMCodeEngineCluster \<times> ibm_call list \<Rightarrow>
   ((py_error + unit) \<times> IBMCodeEngineScheduler \<times> IBMCodeEngineCluster \<times> ibm_call list) option" where
  "ibm_start svc cfg wait self st =
     (case st of (cluster, log) \<Rightarrow>
        ibm_start_scheduler svc cfg wait (self \<lparr> ibm_port := Some 443 \<rparr>)
          (cluster \<lparr> ibm_protocol := ''wss'' \<rparr>, log))"

subsection \<open>Adding a worker\<close>

text \<open>
  The arguments of \<open>IBMCodeEngineWorker.__init__\<close>, with the name the inherited worker mixin
  assigns.
\<close>

record IBMCodeEngineWorker_kwargs =
  wk_image :: "string option"
  wk_region :: "string option"
  wk_project_id :: "string option"
  wk_api_key :: "string option"
  wk_name :: string
  wk_worker_class :: string
  wk_worker_options :: py_dict

text \<open>
  Adding a worker, as far as this module takes part in it: the worker is constructed on
  the cluster, and \<open>create_vm\<close> is called on the instance the constructor returned (the
  inherited \<open>start\<close> makes that call). When the constructor raises there is no instance
  and nothing is called.
\<close>

definition ibm_add_worker ::
  "(string option \<Rightarrow> py_error + unit) \<Rightarrow> (string \<times> py_dict \<Rightarrow> string) \<Rightarrow> ibm_service \<Rightarrow> string \<Rightarrow>
   IBMCodeEngineWorker_kwargs \<Rightarrow> IBMCodeEngineCluster \<times> ibm_call list \<Rightarrow>
   ((py_error + string option \<times> string option) \<times> ibm_call list) option" where
  "ibm_add_worker authenticator dumps svc cfg kw st =
     (case st of (cluster, log) \<Rightarrow>
      (case IBMCodeEngineWorker_init authenticator dumps cluster (wk_image kw) (wk_region kw)
              (wk_project_id kw) (wk_api_key kw) (wk_name kw) (wk_worker_class kw)
              (wk_worker_options kw) of
         Inl e \<Rightarrow> Some (Inl e, log)
       | Inr w \<Rightarrow> ibm_create_vm svc cfg w log))"

section \<open>Fly.io machines: \<open>fly/machine.py\<close>\<close>

subsection \<open>The Fly API and the cluster object\<close>

record fly_port =
  fp_port :: int
  fp_handlers :: "string list"

record fly_services =
  fs_ports :: "fly_port list"
  fs_protocol :: string
  fs_internal_port :: int

record fly_guest =
  fg_cpu_kind :: string
  fg_cpus :: int
  fg_memory_mb :: int

record fly_process =
  pr_name :: string
  pr_cmd :: "string option list"
  pr_env :: py_dict
  pr_user :: string
  pr_entrypoint :: "string list"

record FlyMachineConfig =
  cfg_env :: py_dict
  cfg_image :: "string option"
  cfg_metadata :: "string option"
  cfg_restart :: "string option"
  cfg_services :: "fly_services list"
  cfg_guest :: fly_guest
  cfg_size :: "string option"
  cfg_metrics :: "string option"
  cfg_processes :: "fly_process list"

text \<open>The machine object that \<open>create_machine\<close> returns, as far as it is read.\<close>

record fly_machine =
  mi_id :: string
  mi_private_ip :: string

text \<open>
  The calls of the module to the Fly client: \<open>create_app(app_name)\<close>,
  \<open>create_machine(app_name, config, name, region)\<close>,
  \<open>delete_machine(app_name, machine_id, force)\<close> and \<open>delete_app(app_name)\<close>.
\<close>

datatype fly_call =
    FlyCreateApp string
  | FlyCreateMachine "string option" FlyMachineConfig "string option" "string option"
  | FlyDeleteMachine "string option" string bool
  | FlyDeleteApp string

text \<open>
  The provider: what each call returns or raises, given the calls issued before it.
\<close>

record fly_api =
  create_app_result :: "fly_call list \<Rightarrow> fly_call \<Rightarrow> py_error + string"
  create_machine_result :: "fly_call list \<Rightarrow> fly_call \<Rightarrow> py_error + fly_machine"
  delete_machine_result :: "fly_call list \<Rightarrow> fly_call \<Rightarrow> py_error + unit"
  delete_app_result :: "fly_call list \<Rightarrow> fly_call \<Rightarrow> py_error + unit"

text \<open>
  \<open>self.app\<close> of the cluster is \<open>None\<close>, the string \<open>"failed"\<close>, or the object that
  \<open>create_app\<close> returned.
\<close>

datatype fly_app = AppFailed | AppCreated string

text \<open>
  \<open>FlyMachineCluster\<close>, as far as the machines and the application methods use it.
  \<open>calls\<close> is the history of the client \<open>self._fly()\<close>; \<open>uuid\<close> is assigned by the
  inherited cluster constructor.
\<close>

record FlyMachineCluster =
  app :: "fly_app option"
  app_name :: "string option"
  api_token :: "string option"
  uuid :: string
  scheduler_internal_address :: "string option"
  scheduler_port :: "int option"
  calls :: "fly_call list"

text \<open>
  \<open>FlyMachineCluster.__init__\<close>: the token is the argument, or else the configured one;
  no application exists yet, the name is the argument \<open>app_name\<close>.
\<close>

definition FlyMachineCluster_init ::
  "string option \<Rightarrow> string option \<Rightarrow> string option \<Rightarrow> string \<Rightarrow> FlyMachineCluster" where
  "FlyMachineCluster_init config_token token app_name_arg cluster_uuid =
     \<lparr> app = None, app_name = app_name_arg,
       api_token = (case token of Some t \<Rightarrow> Some t | None \<Rightarrow> config_token),
       uuid = cluster_uuid, scheduler_internal_address = None, scheduler_port = None,
       calls = [] \<rparr>"

subsection \<open>\<open>FlyMachineCluster.create_app\<close>, \<open>delete_app\<close>, \<open>wait_for_app\<close>\<close>

text \<open>
  \<open>create_app\<close> up to its only suspension point, \<open>await self._fly().create_app(...)\<close>:
  it returns at once when a name is recorded; otherwise it generates the name from the
  first eight characters of \<open>u = str(uuid.uuid4())\<close> and issues the call. The result is
  \<open>Inl ()\<close> when the method has returned, and the name with the pending response when it
  is suspended.
\<close>

definition create_app_begin ::
  "fly_api \<Rightarrow> string \<Rightarrow> FlyMachineCluster \<Rightarrow>
   (unit + string \<times> (py_error + string)) \<times> FlyMachineCluster" where
  "create_app_begin api u c =
     (if app_name c \<noteq> None then (Inl (), c)
      else
        (let new_name = ''dask-'' @ take 8 u in
         (Inr (new_name, create_app_result api (calls c) (FlyCreateApp new_name)),
          c \<lparr> calls := calls c @ [FlyCreateApp new_name] \<rparr>)))"

text \<open>
  \<open>create_app\<close> from the suspension point on: success stores the object and the name,
  an exception stores \<open>"failed"\<close> in \<open>self.app\<close> and is raised again. There is no loop and
  no second call.
\<close>

definition create_app_resume ::
  "string \<Rightarrow> py_error + string \<Rightarrow> FlyMachineCluster \<Rightarrow> (py_error + unit) \<times> FlyMachineCluster" where
  "create_app_resume new_name response c =
     (case response of
        Inr created \<Rightarrow> (Inr (), c \<lparr> app := Some (AppCreated created), app_name := Some new_name \<rparr>)
      | Inl e \<Rightarrow> (Inl e, c \<lparr> app := Some AppFailed \<rparr>))"

text \<open>\<open>create_app\<close> run without any other task in between.\<close>

definition create_app ::
  "fly_api \<Rightarrow> string \<Rightarrow> FlyMachineCluster \<Rightarrow> (py_error + unit) \<times> FlyMachineCluster" where
  "create_app api u c =
     (case create_app_begin api u c of
        (Inl done, c') \<Rightarrow> (Inr (), c')
      | (Inr (new_name, response), c') \<Rightarrow> create_app_resume new_name response c')"

definition delete_app ::
  "fly_api \<Rightarrow> FlyMachineCluster \<Rightarrow> (py_error + unit) \<times> FlyMachineCluster" where
  "delete_app api c =
     (case app_name c of
        None \<Rightarrow> (Inr (), c)
      | Some n \<Rightarrow>
          (case delete_app_result api (calls c) (FlyDeleteApp n) of
             Inl e \<Rightarrow> (Inl e, c \<lparr> calls := calls c @ [FlyDeleteApp n] \<rparr>)
           | Inr ack \<Rightarrow> (Inr (), c \<lparr> calls := calls c @ [FlyDeleteApp n] \<rparr>)))"

text \<open>
  The two waiting loops \<open>while ... is None: await asyncio.sleep(1)\<close>. While the task
  sleeps the other tasks run: \<open>env\<close> is what they do to the cluster during one sleep. The
  loops have no bound; \<open>None\<close> is a loop that never ends.
\<close>

partial_function (option) cluster_wait_for_app ::
  "(FlyMachineCluster \<Rightarrow> FlyMachineCluster) \<Rightarrow> FlyMachineCluster \<Rightarrow> FlyMachineCluster option" where
  "cluster_wait_for_app env c =
     (if app c = None \<or> app_name c = None then cluster_wait_for_app env (env c) else Some c)"

partial_function (option) wait_for_app ::
  "(FlyMachineCluster \<Rightarrow> FlyMachineCluster) \<Rightarrow> FlyMachineCluster \<Rightarrow> FlyMachineCluster option" where
  "wait_for_app env c =
     (if app_name c = None \<or> app c = None then wait_for_app env (env c) else Some c)"

subsection \<open>\<open>FlyMachine\<close>\<close>

text \<open>The keyword arguments of \<open>FlyMachine.__init__\<close>; each defaults to \<open>None\<close>.\<close>

record FlyMachine_kwargs =
  kw_region :: "string option"
  kw_vm_size :: "string option"
  kw_memory_mb :: "int option"
  kw_cpus :: "int option"
  kw_image :: "string option"
  kw_env_vars :: "py_dict option"
  kw_extra_bootstrap :: "string list option"
  kw_metadata :: "string option"
  kw_restart :: "string option"

text \<open>
  The instance. \<open>env_vars\<close> is the caller's dictionary itself, so the field holds its
  contents after the constructor has changed it. \<open>name\<close>, \<open>command\<close>, \<open>address\<close> and
  \<open>external_address\<close> are \<open>None\<close> when the inherited constructor returns.
\<close>

record FlyMachine =
  machine :: "fly_machine option"
  region :: "string option"
  vm_size :: "string option"
  cpus :: int
  memory_mb :: int
  image_ref :: "string option"
  gpu_instance :: bool
  bootstrap :: bool
  extra_bootstrap :: "string list option"
  env_vars :: py_dict
  metadata :: "string option"
  restart :: "string option"
  machine_app_name :: "string option"
  set_env :: string
  machine_api_token :: "string option"
  name :: "string option"
  command :: "string option"
  address :: "string option"
  external_address :: "string option"
  host :: "string option"
  internal_ip :: "string option"
  port :: "int option"
  running :: bool

record FlyMachineWorker = FlyMachine +
  scheduler :: string
  worker_class :: string

text \<open>
  \<open>set_env\<close>: the serialized configuration \<open>cfg\<close> between double quotes.
\<close>

definition fly_set_env :: "string \<Rightarrow> string" where
  "fly_set_env cfg = ''DASK_INTERNAL__INHERIT_CONFIG='' @ [CHR 0x22] @ cfg @ [CHR 0x22]"

text \<open>
  \<open>FlyMachine.__init__\<close>. \<open>cpus\<close> and \<open>memory_mb\<close> are assigned the literals 1 and 1024;
  the arguments of those names are not read. The token check comes first, then the
  membership test on \<open>env_vars\<close>, which raises \<open>TypeError\<close> on \<open>None\<close>.
\<close>

definition FlyMachine_init ::
  "FlyMachineCluster \<Rightarrow> string \<Rightarrow> FlyMachine_kwargs \<Rightarrow> py_error + FlyMachine" where
  "FlyMachine_init cluster cfg kw =
     (if api_token cluster = None then Inl (ValueError ''Fly.io API token must be provided'')
      else
        (case kw_env_vars kw of
           None \<Rightarrow> Inl TypeError
         | Some d \<Rightarrow>
             Inr \<lparr> machine = None, region = kw_region kw, vm_size = kw_vm_size kw,
                   cpus = 1, memory_mb = 1024, image_ref = kw_image kw,
                   gpu_instance = False, bootstrap = True,
                   extra_bootstrap = kw_extra_bootstrap kw,
                   env_vars =
                     (case dict_get d ''EXTRA_PIP_PACKAGES'' of
                        Some old \<Rightarrow> dict_set d ''EXTRA_PIP_PACKAGES'' (old @ ''dask[distributed]'')
                      | None \<Rightarrow> dict_set d ''EXTRA_PIP_PACKAGES'' '' dask[distributed]''),
                   metadata = kw_metadata kw, restart = kw_restart kw,
                   machine_app_name = app_name cluster, set_env = fly_set_env cfg,
                   machine_api_token = api_token cluster,
                   name = None, command = None, address = None, external_address = None,
                   host = None, internal_ip = None, port = None, running = False \<rparr>))"

text \<open>
  \<open>FlyMachineScheduler.__init__\<close>; \<open>port_option\<close> is \<open>scheduler_options.get("port")\<close> and
  \<open>keywords\<close> is \<open>cli_keywords(scheduler_options, cls=_Scheduler)\<close>.
\<close>

definition FlyMachineScheduler_init ::
  "FlyMachineCluster \<Rightarrow> string \<Rightarrow> int option \<Rightarrow> string list \<Rightarrow> FlyMachine_kwargs \<Rightarrow>
   py_error + FlyMachine" where
  "FlyMachineScheduler_init cluster cfg port_option keywords kw =
     (case FlyMachine_init cluster cfg kw of
        Inl e \<Rightarrow> Inl e
      | Inr m \<Rightarrow>
          Inr (m \<lparr> name := Some (''dask-'' @ uuid cluster @ ''-scheduler''),
                   port := Some (case port_option of None \<Rightarrow> 8786 | Some p \<Rightarrow> p),
                   command := Some (join '' '' ([set_env m, ''dask'', ''scheduler''] @ keywords)) \<rparr>))"

text \<open>
  \<open>FlyMachineWorker.__init__\<close>; \<open>u\<close> is \<open>str(uuid.uuid4())\<close> and \<open>keywords\<close> is
  \<open>cli_keywords(worker_options, cls=_Worker)\<close>. The scheduler address is the first
  argument and is placed in the command as it is.
\<close>

definition FlyMachineWorker_init ::
  "string \<Rightarrow> FlyMachineCluster \<Rightarrow> string \<Rightarrow> string \<Rightarrow> string \<Rightarrow> string list \<Rightarrow>
   FlyMachine_kwargs \<Rightarrow> py_error + FlyMachineWorker" where
  "FlyMachineWorker_init scheduler_arg cluster cfg u worker_class_arg keywords kw =
     (case FlyMachine_init cluster cfg kw of
        Inl e \<Rightarrow> Inl e
      | Inr m \<Rightarrow>
          Inr (FlyMachine.extend
                 (m \<lparr> name := Some (''dask-'' @ uuid cluster @ ''-worker-'' @ take 8 u),
                      command := Some (join '' ''
                                   ([set_env m, ''dask'', ''worker'', scheduler_arg] @ keywords)) \<rparr>)
                 \<lparr> scheduler = scheduler_arg, worker_class = worker_class_arg \<rparr>))"

subsection \<open>\<open>FlyMachine.create_vm\<close>, \<open>destroy_vm\<close> and the waiting loops\<close>

text \<open>
  The configuration \<open>create_vm\<close> builds. The guest's CPU count and memory are read from
  the attributes the constructor set.
\<close>

definition fly_machine_config :: "'a FlyMachine_scheme \<Rightarrow> FlyMachineConfig" where
  "fly_machine_config self =
     \<lparr> cfg_env = env_vars self,
       cfg_image = image_ref self,
       cfg_metadata = metadata self,
       cfg_restart = restart self,
       cfg_services =
         [\<lparr> fs_ports =
              [\<lparr> fp_port = 80, fp_handlers = [''http''] \<rparr>,
               \<lparr> fp_port = 443, fp_handlers = [''http'', ''tls''] \<rparr>,
               \<lparr> fp_port = 8786, fp_handlers = [''http'', ''tls''] \<rparr>],
            fs_protocol = ''tcp'', fs_internal_port = 8786 \<rparr>,
          \<lparr> fs_ports = [\<lparr> fp_port = 8787, fp_handlers = [''http'', ''tls''] \<rparr>],
            fs_protocol = ''tcp'', fs_internal_port = 8787 \<rparr>],
       cfg_guest = \<lparr> fg_cpu_kind = ''shared'', fg_cpus = cpus self, fg_memory_mb = memory_mb self \<rparr>,
       cfg_size = vm_size self,
       cfg_metrics = None,
       cfg_processes =
         [\<lparr> pr_name = ''app'', pr_cmd = [command self], pr_env = env_vars self,
            pr_user = ''root'', pr_entrypoint = [''/bin/bash'', ''-c''] \<rparr>] \<rparr>"

text \<open>
  \<open>create_vm\<close>: wait for the application, issue \<open>create_machine\<close>, record the machine and
  its addresses, return \<open>(self.address, self.external_address)\<close>. \<open>external_address\<close> is
  not assigned. No other task is taken to run during the provider call itself.
\<close>

definition create_vm ::
  "fly_api \<Rightarrow> (FlyMachineCluster \<Rightarrow> FlyMachineCluster) \<Rightarrow> 'a FlyMachine_scheme \<Rightarrow>
   FlyMachineCluster \<Rightarrow>
   ((py_error + string option \<times> string option) \<times> 'a FlyMachine_scheme \<times> FlyMachineCluster) option" where
  "create_vm api env self c =
     (case wait_for_app env c of
        None \<Rightarrow> None
      | Some c1 \<Rightarrow>
          (let request = FlyCreateMachine (app_name c1) (fly_machine_config self) (name self)
                           (region self);
               c2 = c1 \<lparr> calls := calls c1 @ [request] \<rparr> in
           case create_machine_result api (calls c1) request of
             Inl e \<Rightarrow> Some (Inl e, self, c2)
           | Inr m \<Rightarrow>
               (let self' = self
                      \<lparr> machine := Some m,
                        address := Some (''tcp://['' @ mi_private_ip m @ '']:8786''),
                        host := Some (mi_id m @ ''.vm.'' @ fmt (app_name c2) @ ''.internal''),
                        internal_ip := Some (mi_private_ip m),
                        port := Some 8786 \<rparr> in
                Some (Inr (address self', external_address self'), self', c2))))"

text \<open>
  \<open>destroy_vm\<close>: nothing when no machine was recorded; otherwise one forced
  \<open>delete_machine\<close>. No attribute of the instance is assigned, so the instance is the
  same afterwards.
\<close>

definition destroy_vm ::
  "fly_api \<Rightarrow> 'a FlyMachine_scheme \<Rightarrow> FlyMachineCluster \<Rightarrow> (py_error + unit) \<times> FlyMachineCluster" where
  "destroy_vm api self c =
     (case machine self of
        None \<Rightarrow> (Inr (), c)
      | Some m \<Rightarrow>
          (let request = FlyDeleteMachine (app_name c) (mi_id m) True in
           case delete_machine_result api (calls c) request of
             Inl e \<Rightarrow> (Inl e, c \<lparr> calls := calls c @ [request] \<rparr>)
           | Inr ack \<Rightarrow> (Inr (), c \<lparr> calls := calls c @ [request] \<rparr>)))"

text \<open>
  \<open>wait_for_scheduler\<close>: \<open>while not asyncio.create_task(async_socket_open(host, port))\<close>.
  The condition tests the task object, not the probe's result, and a task object is
  true.
\<close>

datatype py_task = Task bool

definition task_truth :: "py_task \<Rightarrow> bool" where
  "task_truth t = True"

partial_function (option) wait_for_scheduler ::
  "(string option \<Rightarrow> int option \<Rightarrow> bool) \<Rightarrow> (FlyMachineCluster \<Rightarrow> FlyMachineCluster) \<Rightarrow>
   FlyMachine \<Rightarrow> FlyMachineCluster \<Rightarrow> FlyMachineCluster option" where
  "wait_for_scheduler socket_open env self c =
     (if \<not> task_truth (Task (socket_open (host self) (port self)))
      then wait_for_scheduler socket_open env self (env c)
      else Some c)"

subsection \<open>Starting the scheduler and a worker\<close>

text \<open>\<open>FlyMachineScheduler.start_scheduler\<close>.\<close>

definition start_scheduler ::
  "fly_api \<Rightarrow> (string option \<Rightarrow> int option \<Rightarrow> bool) \<Rightarrow> (FlyMachineCluster \<Rightarrow> FlyMachineCluster) \<Rightarrow>
   FlyMachine \<Rightarrow> FlyMachineCluster \<Rightarrow>
   ((py_error + unit) \<times> FlyMachine \<times> FlyMachineCluster) option" where
  "start_scheduler api socket_open env self c =
     (case create_vm api env self c of
        None \<Rightarrow> None
      | Some (Inl e, self1, c1) \<Rightarrow> Some (Inl e, self1, c1)
      | Some (Inr (address', external_address'), self1, c1) \<Rightarrow>
          (case wait_for_scheduler socket_open env self1 c1 of
             None \<Rightarrow> None
           | Some c2 \<Rightarrow>
               Some (Inr (), self1,
                     c2 \<lparr> scheduler_internal_address := address',
                          scheduler_port := port self1 \<rparr>)))"

text \<open>\<open>FlyMachineScheduler.start\<close>; \<open>u\<close> is the UUID \<open>create_app\<close> draws.\<close>

definition scheduler_start ::
  "fly_api \<Rightarrow> (string option \<Rightarrow> int option \<Rightarrow> bool) \<Rightarrow> (FlyMachineCluster \<Rightarrow> FlyMachineCluster) \<Rightarrow>
   string \<Rightarrow> FlyMachine \<Rightarrow> FlyMachineCluster \<Rightarrow>
   ((py_error + unit) \<times> FlyMachine \<times> FlyMachineCluster) option" where
  "scheduler_start api socket_open env u self c =
     (case (if app c = None then create_app api u c else (Inr (), c)) of
        (Inl e, c1) \<Rightarrow> Some (Inl e, self, c1)
      | (Inr done, c1) \<Rightarrow>
          (case cluster_wait_for_app env c1 of
             None \<Rightarrow> None
           | Some c2 \<Rightarrow>
               (case start_scheduler api socket_open env self c2 of
                  None \<Rightarrow> None
                | Some (Inl e, self1, c3) \<Rightarrow> Some (Inl e, self1, c3)
                | Some (Inr done', self1, c3) \<Rightarrow> Some (Inr (), self1 \<lparr> running := True \<rparr>, c3))))"

text \<open>
  \<open>FlyMachineWorker.start_worker\<close> and \<open>start\<close>. \<open>inherited_start\<close> is \<open>super().start()\<close>,
  which this module does not define.
\<close>

definition start_worker ::
  "fly_api \<Rightarrow> (FlyMachineCluster \<Rightarrow> FlyMachineCluster) \<Rightarrow> FlyMachineWorker \<Rightarrow> FlyMachineCluster \<Rightarrow>
   ((py_error + unit) \<times> FlyMachineWorker \<times> FlyMachineCluster) option" where
  "start_worker api env self c =
     (case create_vm api env self c of
        None \<Rightarrow> None
      | Some (Inl e, self1, c1) \<Rightarrow> Some (Inl e, self1, c1)
      | Some (Inr (address', external_address'), self1, c1) \<Rightarrow>
          Some (Inr (), self1 \<lparr> address := address', external_address := external_address' \<rparr>, c1))"

definition worker_start ::
  "(FlyMachineWorker \<Rightarrow> FlyMachineCluster \<Rightarrow>
      ((py_error + unit) \<times> FlyMachineWorker \<times> FlyMachineCluster) option) \<Rightarrow>
   fly_api \<Rightarrow> (FlyMachineCluster \<Rightarrow> FlyMachineCluster) \<Rightarrow> FlyMachineWorker \<Rightarrow> FlyMachineCluster \<Rightarrow>
   ((py_error + unit) \<times> FlyMachineWorker \<times> FlyMachineCluster) option" where
  "worker_start inherited_start api env self c =
     (case inherited_start self c of
        None \<Rightarrow> None
      | Some (Inl e, self1, c1) \<Rightarrow> Some (Inl e, self1, c1)
      | Some (Inr done, self1, c1) \<Rightarrow> start_worker api env self1 c1)"

subsection \<open>The orchestrator's \<open>add_worker\<close>\<close>

text \<open>
  Modelled from the spec: \<open>add_worker\<close> of the cluster orchestrator (section 4.3), which
  decides when a Fly worker is built and with which scheduler address, and which is not
  part of this module. It is valid only once the scheduler's resolved internal address
  has been recorded and fails with \<open>PreconditionError\<close> when called earlier; otherwise it
  builds the worker with that address and runs its creation. The constructor and \<open>start\<close>
  are the module's own.
\<close>

definition add_worker ::
  "(FlyMachineWorker \<Rightarrow> FlyMachineCluster \<Rightarrow>
      ((py_error + unit) \<times> FlyMachineWorker \<times> FlyMachineCluster) option) \<Rightarrow>
   fly_api \<Rightarrow> (FlyMachineCluster \<Rightarrow> FlyMachineCluster) \<Rightarrow> string \<Rightarrow> string \<Rightarrow> string \<Rightarrow>
   string list \<Rightarrow> FlyMachine_kwargs \<Rightarrow> FlyMachineCluster \<Rightarrow>
   ((py_error + unit) \<times> FlyMachineCluster) option" where
  "add_worker inherited_start api env cfg u worker_class_arg keywords kw c =
     (case scheduler_internal_address c of
        None \<Rightarrow> Some (Inl PreconditionError, c)
      | Some a \<Rightarrow>
          (case FlyMachineWorker_init a c cfg u worker_class_arg keywords kw of
             Inl e \<Rightarrow> Some (Inl e, c)
           | Inr w \<Rightarrow>
               (case worker_start inherited_start api env w c of
                  None \<Rightarrow> None
                | Some (r, w', c') \<Rightarrow> Some (r, c'))))"

subsection \<open>Several \<open>create_app\<close> calls as tasks\<close>

text \<open>
  A call of \<open>create_app\<close> as a task of the event loop: not started (with the UUID it will
  draw), suspended at the provider call (with the generated name and the response that
  will arrive), or returned. \<open>task_step\<close> runs a task to its next suspension point;
  \<open>run_tasks\<close> follows a schedule, the list of the tasks the loop picks in turn.
\<close>

datatype create_app_task =
    NotStarted string
  | Suspended string "py_error + string"
  | Returned "py_error + unit"

fun task_step ::
  "fly_api \<Rightarrow> create_app_task \<Rightarrow> FlyMachineCluster \<Rightarrow> create_app_task \<times> FlyMachineCluster" where
  "task_step api (NotStarted u) c =
     (case create_app_begin api u c of
        (Inl done, c') \<Rightarrow> (Returned (Inr ()), c')
      | (Inr (new_name, response), c') \<Rightarrow> (Suspended new_name response, c'))"
| "task_step api (Suspended new_name response) c =
     (case create_app_resume new_name response c of (r, c') \<Rightarrow> (Returned r, c'))"
| "task_step api (Returned r) c = (Returned r, c)"

fun run_tasks ::
  "fly_api \<Rightarrow> nat list \<Rightarrow> create_app_task list \<times> FlyMachineCluster \<Rightarrow>
   create_app_task list \<times> FlyMachineCluster" where
  "run_tasks api [] st = st"
| "run_tasks api (i # schedule) (tasks, c) =
     (if i < length tasks
      then (case task_step api (tasks ! i) c of
              (t, c') \<Rightarrow> run_tasks api schedule (tasks[i := t], c'))
      else run_tasks api schedule (tasks, c))"

text \<open>\<open>create_app\<close> called once for each UUID of a list, each call returning before the next.\<close>

fun create_app_each ::
  "fly_api \<Rightarrow> string list \<Rightarrow> FlyMachineCluster \<Rightarrow> FlyMachineCluster" where
  "create_app_each api [] c = c"
| "create_app_each api (u # us) c = create_app_each api us (snd (create_app api u c))"

text \<open>The number of \<open>create_app\<close> calls in a history.\<close>

fun is_create_app :: "fly_call \<Rightarrow> bool" where
  "is_create_app (FlyCreateApp n) = True"
| "is_create_app other = False"

definition create_app_calls :: "FlyMachineCluster \<Rightarrow> nat" where
  "create_app_calls c = length (filter is_create_app (calls c))"

section \<open>Concrete inputs\<close>

text \<open>
  An authenticator that accepts every key, a scheduler instance as
  \<open>IBMCodeEngineScheduler.__init__\<close> builds it, a service whose application becomes ready at
  the third poll, and a service whose application never becomes ready.
\<close>

definition accept_key :: "string option \<Rightarrow> py_error + unit" where
  "accept_key k = Inr ()"

definition ex_ibm_scheduler :: IBMCodeEngineScheduler where
  "ex_ibm_scheduler =
     \<lparr> ibm_image = Some ''ghcr.io/dask/dask:latest'', ibm_region = Some ''eu-de'',
       ibm_project_id = Some ''project-1'', ibm_api_key = Some ''key'',
       ibm_service_url = ''https://api.eu-de.codeengine.cloud.ibm.com/v2'',
       ibm_name = ''dask-38b817c1-scheduler'',
       ibm_command = CmdStr ''env python -m distributed.cli.dask_scheduler'',
       ibm_port = Some 8786, ibm_internal_ip = None, ibm_external_ip = None,
       ibm_address = None, ibm_running = False \<rparr>"

definition ex_ibm_ready_app :: py_dict where
  "ex_ibm_ready_app =
     [(''name'', ''dask-38b817c1-scheduler''), (''status'', ''ready''),
      (''endpoint_internal'', ''http://dask-scheduler.internal''),
      (''endpoint'', ''https://dask-scheduler.example.cloud'')]"

definition ex_ibm_service :: ibm_service where
  "ex_ibm_service log call =
     (case call of
        IbmGetApp p n \<Rightarrow>
          (if length log < 3 then Inr [(''status'', ''deploying'')] else Inr ex_ibm_ready_app)
      | other \<Rightarrow> Inr [])"

definition ex_ibm_pending :: ibm_service where
  "ex_ibm_pending log call = Inr [(''status'', ''deploying'')]"

text \<open>
  A cluster on which no scheduler has started (the scheduler attributes are not
  assigned), a stand-in for \<open>json.dumps\<close>, the arguments of a worker, and the worker that
  \<open>IBMCodeEngineWorker.__init__\<close> builds from them on the cluster whose scheduler has
  started.
\<close>

definition ex_ibm_cluster :: IBMCodeEngineCluster where
  "ex_ibm_cluster =
     \<lparr> ibm_protocol = ''tcp'', ibm_scheduler_internal_ip = None,
       ibm_scheduler_external_ip = None, ibm_scheduler_port = None \<rparr>"

definition ex_dumps :: "string \<times> py_dict \<Rightarrow> string" where
  "ex_dumps spec = ''{...}''"

definition ex_ibm_worker :: IBMCodeEngineWorker where
  "ex_ibm_worker =
     \<lparr> ibm_image = Some ''ghcr.io/dask/dask:latest'', ibm_region = Some ''eu-de'',
       ibm_project_id = Some ''project-1'', ibm_api_key = Some ''key'',
       ibm_service_url = ''https://api.eu-de.codeengine.cloud.ibm.com/v2'',
       ibm_name = ''dask-38b817c1-worker-dc95260d'',
       ibm_command = CmdList [''python'', ''-m'', ''distributed.cli.dask_spec'',
                              ''ws://dask-scheduler.internal:80'', ''--spec'', ''{...}''],
       ibm_worker_class = ''distributed.cli.Nanny'', ibm_worker_options = [] \<rparr>"

definition ex_ibm_worker_kwargs :: IBMCodeEngineWorker_kwargs where
  "ex_ibm_worker_kwargs =
     \<lparr> wk_image = Some ''ghcr.io/dask/dask:latest'', wk_region = Some ''eu-de'',
       wk_project_id = Some ''project-1'', wk_api_key = Some ''key'',
       wk_name = ''dask-38b817c1-worker-dc95260d'',
       wk_worker_class = ''distributed.cli.Nanny'', wk_worker_options = [] \<rparr>"

text \<open>
  For Fly: a provider that accepts every call, one that rejects \<open>create_app\<close>, a new
  cluster with a token, the same without a token and with its application created,
  constructor arguments that ask for 8 CPUs and 16384 MB, a scheduler machine that has
  been created, and the worker that \<open>FlyMachineWorker.__init__\<close> builds.
\<close>

definition ex_fly_api :: fly_api where
  "ex_fly_api =
     \<lparr> create_app_result = (\<lambda>history request. Inr ''app-object''),
       create_machine_result =
         (\<lambda>history request. Inr \<lparr> mi_id = ''148e21'', mi_private_ip = ''fdaa:0:1::3'' \<rparr>),
       delete_machine_result = (\<lambda>history request. Inr ()),
       delete_app_result = (\<lambda>history request. Inr ()) \<rparr>"

definition ex_fly_rejecting :: fly_api where
  "ex_fly_rejecting =
     ex_fly_api \<lparr> create_app_result := (\<lambda>history request. Inl (ApiException ''quota'')) \<rparr>"

definition ex_cluster :: FlyMachineCluster where
  "ex_cluster =
     \<lparr> app = None, app_name = None, api_token = Some ''token'', uuid = ''38b817c1'',
       scheduler_internal_address = None, scheduler_port = None, calls = [] \<rparr>"

definition ex_cluster_no_token :: FlyMachineCluster where
  "ex_cluster_no_token = ex_cluster \<lparr> api_token := None \<rparr>"

definition ex_cluster_with_app :: FlyMachineCluster where
  "ex_cluster_with_app =
     ex_cluster \<lparr> app := Some (AppCreated ''app-object''), app_name := Some ''dask-1b9d6bcd'' \<rparr>"

definition ex_kwargs :: FlyMachine_kwargs where
  "ex_kwargs =
     \<lparr> kw_region = Some ''lhr'', kw_vm_size = Some ''shared-cpu-1x'',
       kw_memory_mb = Some 16384, kw_cpus = Some 8,
       kw_image = Some ''ghcr.io/dask/dask:latest'',
       kw_env_vars = Some [(''EXTRA_PIP_PACKAGES'', ''numpy'')],
       kw_extra_bootstrap = None, kw_metadata = None, kw_restart = None \<rparr>"

definition ex_machine :: FlyMachine where
  "ex_machine =
     \<lparr> machine = Some \<lparr> mi_id = ''148e21'', mi_private_ip = ''fdaa:0:1::3'' \<rparr>,
       region = Some ''lhr'', vm_size = Some ''shared-cpu-1x'', cpus = 1, memory_mb = 1024,
       image_ref = Some ''ghcr.io/dask/dask:latest'', gpu_instance = False, bootstrap = True,
       extra_bootstrap = None,
       env_vars = [(''EXTRA_PIP_PACKAGES'', ''numpydask[distributed]'')],
       metadata = None, restart = None, machine_app_name = Some ''dask-1b9d6bcd'',
       set_env = fly_set_env ''{}'', machine_api_token = Some ''token'',
       name = Some ''dask-38b817c1-scheduler'',
       command = Some (join '' '' [fly_set_env ''{}'', ''dask'', ''scheduler'']),
       address = Some ''tcp://[fdaa:0:1::3]:8786'', external_address = None,
       host = Some ''148e21.vm.dask-1b9d6bcd.internal'', internal_ip = Some ''fdaa:0:1::3'',
       port = Some 8786, running = True \<rparr>"

definition ex_worker :: FlyMachineWorker where
  "ex_worker =
     \<lparr> machine = None,
       region = Some ''lhr'', vm_size = Some ''shared-cpu-1x'', cpus = 1, memory_mb = 1024,
       image_ref = Some ''ghcr.io/dask/dask:latest'', gpu_instance = False, bootstrap = True,
       extra_bootstrap = None,
       env_vars = [(''EXTRA_PIP_PACKAGES'', ''numpydask[distributed]'')],
       metadata = None, restart = None, machine_app_name = Some ''dask-1b9d6bcd'',
       set_env = fly_set_env ''{}'', machine_api_token = Some ''token'',
       name = Some ''dask-38b817c1-worker-9f1c2d3e'',
       command = Some (join '' '' [fly_set_env ''{}'', ''dask'', ''worker'',
                                   ''tcp://[fdaa:0:1::3]:8786'']),
       address = None, external_address = None, host = None, internal_ip = None,
       port = None, running = False,
       scheduler = ''tcp://[fdaa:0:1::3]:8786'', worker_class = ''FlyMachineScheduler'' \<rparr>"

text \<open>
  The two clusters after their schedulers have started: the Fly cluster with the
  scheduler's address recorded, and the IBM cluster with the scheduler's URLs recorded.
\<close>

definition ex_cluster_started :: FlyMachineCluster where
  "ex_cluster_started =
     ex_cluster_with_app
       \<lparr> scheduler_internal_address := Some ''tcp://[fdaa:0:1::3]:8786'',
         scheduler_port := Some 8786,
         calls := [FlyCreateMachine (Some ''dask-1b9d6bcd'')
                     (fly_machine_config (ex_machine \<lparr> machine := None, address := None,
                        host := None, internal_ip := None, running := False \<rparr>))
                     (Some ''dask-38b817c1-scheduler'') (Some ''lhr'')] \<rparr>"

definition ex_ibm_cluster_started :: IBMCodeEngineCluster where
  "ex_ibm_cluster_started =
     \<lparr> ibm_protocol = ''wss'',
       ibm_scheduler_internal_ip = Some (Some ''dask-scheduler.internal''),
       ibm_scheduler_external_ip = Some (Some ''dask-scheduler.example.cloud''),
       ibm_scheduler_port = Some (Some 443) \<rparr>"

section \<open>Facts about the string functions and dictionaries\<close>

lemma startswith_append: "startswith (p @ s) p"
  by (induction p) auto

lemma str_contains_here: "str_contains sub (sub @ q)"
  by (cases "sub @ q") (use startswith_append [of sub q] in auto)

lemma str_contains_append: "str_contains sub (p @ sub @ q)"
proof (induction p)
  case Nil
  show ?case by (simp add: str_contains_here)
next
  case (Cons c p)
  then show ?case by simp
qed

lemma startswith_split: "startswith s p \<Longrightarrow> \<exists>q. s = p @ q"
  by (induction s p rule: startswith.induct) auto

lemma str_contains_split: "str_contains sub s \<Longrightarrow> \<exists>p q. s = p @ sub @ q"
proof (induction s)
  case Nil
  then show ?case by simp
next
  case (Cons c cs)
  show ?case
  proof (cases "startswith (c # cs) sub")
    case True
    then obtain q where "c # cs = sub @ q" using startswith_split by blast
    then have "c # cs = [] @ sub @ q" by simp
    then show ?thesis by blast
  next
    case False
    with Cons obtain p q where "cs = p @ sub @ q" by auto
    then have "c # cs = (c # p) @ sub @ q" by simp
    then show ?thesis by blast
  qed
qed

lemma str_contains_iff: "str_contains sub s \<longleftrightarrow> (\<exists>p q. s = p @ sub @ q)"
  using str_contains_split str_contains_append by blast

lemma str_contains_trans:
  assumes "str_contains a b" and "str_contains b c"
  shows "str_contains a c"
proof -
  from assms(1) obtain p q where b: "b = p @ a @ q" using str_contains_split by blast
  from assms(2) obtain r t where "c = r @ b @ t" using str_contains_split by blast
  with b have "c = (r @ p) @ a @ (q @ t)" by simp
  then show ?thesis using str_contains_append by metis
qed

lemma str_contains_join: "x \<in> set xs \<Longrightarrow> str_contains x (join sep xs)"
proof (induction sep xs rule: join.induct)
  case (1 sep)
  then show ?case by simp
next
  case (2 sep y)
  then show ?case using str_contains_append [of x "[]" "[]"] by simp
next
  case (3 sep y z zs)
  show ?case
  proof (cases "x = y")
    case True
    then show ?thesis using str_contains_append [of x "[]" "sep @ join sep (z # zs)"] by simp
  next
    case False
    with 3 have "str_contains x (join sep (z # zs))" by simp
    then obtain p q where "join sep (z # zs) = p @ x @ q"
      using str_contains_split by blast
    then have "join sep (y # z # zs) = (y @ sep @ p) @ x @ q" by simp
    then show ?thesis using str_contains_append by metis
  qed
qed

lemma dict_get_set: "dict_get (dict_set d k v) k = Some v"
  by (induction d) auto

lemma dict_get_set_other: "k' \<noteq> k \<Longrightarrow> dict_get (dict_set d k v) k' = dict_get d k'"
  by (induction d) auto

lemma str_int_443: "str_int 443 = ''443''"
  by (simp add: str_int_def str_nat.simps)

section \<open>Facts about the IBM instances\<close>

lemma ibm_wait_ready_stop:
  "ibm_poll_stops svc get log 0 \<Longrightarrow> \<exists>r. ibm_wait_ready svc get log = Some (r, log @ [get])"
  by (subst ibm_wait_ready.simps) (auto simp: ibm_poll_stops_def split: sum.splits option.splits)

lemma ibm_wait_ready_continue:
  "\<not> ibm_poll_stops svc get log 0 \<Longrightarrow>
   ibm_wait_ready svc get log = ibm_wait_ready svc get (log @ [get])"
  by (subst ibm_wait_ready.simps) (auto simp: ibm_poll_stops_def split: sum.splits option.splits)

lemma ibm_poll_stops_shift:
  "ibm_poll_stops svc get (log @ [get]) k = ibm_poll_stops svc get log (Suc k)"
  by (simp add: ibm_poll_stops_def replicate_app_Cons_same)

lemma ibm_wait_ready_returns:
  "ibm_poll_stops svc get log k \<Longrightarrow> \<exists>r log'. ibm_wait_ready svc get log = Some (r, log')"
proof (induction k arbitrary: log)
  case 0
  then show ?case using ibm_wait_ready_stop by blast
next
  case (Suc k)
  show ?case
  proof (cases "ibm_poll_stops svc get log 0")
    case True
    then show ?thesis using ibm_wait_ready_stop by blast
  next
    case False
    from Suc.prems have "ibm_poll_stops svc get (log @ [get]) k"
      by (simp add: ibm_poll_stops_shift)
    then obtain r log' where "ibm_wait_ready svc get (log @ [get]) = Some (r, log')"
      using Suc.IH by blast
    with False show ?thesis by (simp add: ibm_wait_ready_continue)
  qed
qed

lemma ibm_wait_ready_stops:
  assumes "ibm_wait_ready svc get log = Some y"
  shows "\<exists>k. ibm_poll_stops svc get log k"
proof (rule ibm_wait_ready.raw_induct
         [where P = "\<lambda>s g l r. \<exists>k. ibm_poll_stops s g l k", OF _ assms])
  fix poll s g l r
  assume IH: "\<And>s g l r. poll s g l = Some r \<Longrightarrow> \<exists>k. ibm_poll_stops s g l k"
    and body: "(case s l g of
        Inl e \<Rightarrow> Some (Inl e, l @ [g])
      | Inr a \<Rightarrow>
          (case dict_get a ''status'' of
             None \<Rightarrow> Some (Inl (KeyError ''status''), l @ [g])
           | Some st \<Rightarrow>
               if st = ''ready'' then Some (Inr a, l @ [g])
               else poll s g (l @ [g]))) = Some r"
  show "\<exists>k. ibm_poll_stops s g l k"
  proof (cases "ibm_poll_stops s g l 0")
    case True
    then show ?thesis by blast
  next
    case False
    with body have "poll s g (l @ [g]) = Some r"
      by (auto simp: ibm_poll_stops_def split: sum.splits option.splits if_splits)
    then obtain k where "ibm_poll_stops s g (l @ [g]) k" using IH by blast
    then have "ibm_poll_stops s g l (Suc k)" by (simp add: ibm_poll_stops_shift)
    then show ?thesis by blast
  qed
qed

lemma ibm_wait_ready_forever:
  "(\<forall>k. \<not> ibm_poll_stops svc get log k) \<Longrightarrow> ibm_wait_ready svc get log = None"
  using ibm_wait_ready_stops by (cases "ibm_wait_ready svc get log") blast+

lemma ibm_wait_ready_result:
  assumes "ibm_wait_ready svc get log = Some y"
  shows "(\<exists>n. snd y = log @ replicate (Suc n) get) \<and>
         (\<forall>a. fst y = Inr a \<longrightarrow>
            dict_get a ''status'' = Some ''ready'' \<and> svc (butlast (snd y)) get = Inr a)"
proof (rule ibm_wait_ready.raw_induct
         [where P = "\<lambda>(s::ibm_service) g l r. (\<exists>n. snd r = l @ replicate (Suc n) g) \<and>
            (\<forall>a. fst r = Inr a \<longrightarrow>
               dict_get a ''status'' = Some ''ready'' \<and> s (butlast (snd r)) g = Inr a)",
          OF _ assms])
  fix poll and s :: ibm_service and g l r
  assume IH: "\<And>(s::ibm_service) g l r. poll s g l = Some r \<Longrightarrow>
      (\<exists>n. snd r = l @ replicate (Suc n) g) \<and>
      (\<forall>a. fst r = Inr a \<longrightarrow>
         dict_get a ''status'' = Some ''ready'' \<and> s (butlast (snd r)) g = Inr a)"
    and body: "(case s l g of
        Inl e \<Rightarrow> Some (Inl e, l @ [g])
      | Inr a \<Rightarrow>
          (case dict_get a ''status'' of
             None \<Rightarrow> Some (Inl (KeyError ''status''), l @ [g])
           | Some st \<Rightarrow>
               if st = ''ready'' then Some (Inr a, l @ [g])
               else poll s g (l @ [g]))) = Some r"
  show "(\<exists>n. snd r = l @ replicate (Suc n) g) \<and>
      (\<forall>a. fst r = Inr a \<longrightarrow>
         dict_get a ''status'' = Some ''ready'' \<and> s (butlast (snd r)) g = Inr a)"
  proof (cases "ibm_poll_stops s g l 0")
    case True
    with body have "snd r = l @ replicate (Suc 0) g"
      by (auto simp: ibm_poll_stops_def split: sum.splits option.splits if_splits)
    moreover from True body
    have "\<forall>a. fst r = Inr a \<longrightarrow>
         dict_get a ''status'' = Some ''ready'' \<and> s (butlast (snd r)) g = Inr a"
      by (auto simp: ibm_poll_stops_def split: sum.splits option.splits if_splits)
    ultimately show ?thesis by blast
  next
    case False
    with body have "poll s g (l @ [g]) = Some r"
      by (auto simp: ibm_poll_stops_def split: sum.splits option.splits if_splits)
    from IH [OF this] obtain n where
      n: "snd r = (l @ [g]) @ replicate (Suc n) g"
      and a: "\<forall>a. fst r = Inr a \<longrightarrow>
         dict_get a ''status'' = Some ''ready'' \<and> s (butlast (snd r)) g = Inr a"
      by blast
    from n have "snd r = l @ replicate (Suc (Suc n)) g" by simp
    with a show ?thesis by blast
  qed
qed

lemma ibm_create_vm_app_path:
  fixes m :: "'a IBMCodeEngine_scheme"
  assumes "ibm_command m = CmdStr cmd" and "ibm_python_command cmd = Inr pc"
    and "svc log (IbmCreateApp (ibm_create_app_payload cfg m pc)) = Inr created"
  shows "ibm_create_vm svc cfg m log =
     (case ibm_wait_ready svc (IbmGetApp (ibm_project_id m) (ibm_name m))
             (log @ [IbmCreateApp (ibm_create_app_payload cfg m pc)]) of
        None \<Rightarrow> None
      | Some (Inl e, log') \<Rightarrow> Some (Inl e, log')
      | Some (Inr a, log') \<Rightarrow> Some (ibm_ready_result a, log'))"
  using assms by (simp add: ibm_create_vm_def)

lemma ibm_read_urls_Inr:
  "ibm_read_urls a = Inr (i, e) \<Longrightarrow>
   \<exists>iu eu. i = Some iu \<and> e = Some eu \<and> ibm_url_host a ''endpoint_internal'' = Inr iu \<and>
           ibm_url_host a ''endpoint'' = Inr eu"
  by (auto simp: ibm_read_urls_def split: sum.splits)

lemma ibm_ready_result_Inr:
  "ibm_ready_result a = Inr (i, e) \<Longrightarrow>
   \<exists>iu eu. i = Some iu \<and> e = Some eu \<and> dict_get a ''name'' \<noteq> None \<and>
           ibm_url_host a ''endpoint_internal'' = Inr iu \<and>
           ibm_url_host a ''endpoint'' = Inr eu"
  by (auto simp: ibm_ready_result_def split: option.splits dest: ibm_read_urls_Inr)

lemma split_from_nonempty: "split_from sep cur s \<noteq> []"
  by (induction sep cur s rule: split_from.induct) auto

lemma ibm_url_host_Inl:
  "ibm_url_host a key = Inl err \<Longrightarrow> err = KeyError key \<or> err = IndexError"
  by (auto simp: ibm_url_host_def split_def split: option.splits if_splits
           elim: item1.elims)

lemma ibm_ready_result_Inl:
  "ibm_ready_result a = Inl err \<Longrightarrow>
   err \<in> {KeyError ''name'', KeyError ''endpoint_internal'', KeyError ''endpoint'', IndexError}"
  by (auto simp: ibm_ready_result_def ibm_read_urls_def split: option.splits sum.splits
           dest: ibm_url_host_Inl)

lemma ibm_poll_result_shift:
  "ibm_poll_result svc get (log @ [get]) k = ibm_poll_result svc get log (Suc k)"
  by (simp add: ibm_poll_result_def replicate_app_Cons_same)

lemma ibm_wait_ready_first_stop:
  "ibm_poll_stops svc get log k \<Longrightarrow> (\<forall>j<k. \<not> ibm_poll_stops svc get log j) \<Longrightarrow>
   ibm_wait_ready svc get log =
     Some (ibm_poll_result svc get log k, log @ replicate (Suc k) get)"
proof (induction k arbitrary: log)
  case 0
  then show ?case
    by (subst ibm_wait_ready.simps)
       (auto simp: ibm_poll_stops_def ibm_poll_result_def split: sum.splits option.splits)
next
  case (Suc k)
  from Suc.prems have no: "\<not> ibm_poll_stops svc get log 0" by blast
  from Suc.prems have "ibm_poll_stops svc get (log @ [get]) k"
    by (simp add: ibm_poll_stops_shift)
  moreover from Suc.prems have "\<forall>j<k. \<not> ibm_poll_stops svc get (log @ [get]) j"
    by (simp add: ibm_poll_stops_shift)
  ultimately have "ibm_wait_ready svc get (log @ [get]) =
      Some (ibm_poll_result svc get (log @ [get]) k, (log @ [get]) @ replicate (Suc k) get)"
    by (rule Suc.IH)
  then show ?case
    by (simp add: ibm_wait_ready_continue [OF no] ibm_poll_result_shift)
qed

lemma ibm_first_stop:
  "ibm_poll_stops svc get log n \<Longrightarrow>
   \<exists>k. ibm_poll_stops svc get log k \<and> (\<forall>j<k. \<not> ibm_poll_stops svc get log j)"
  by (rule exI [of _ "LEAST k. ibm_poll_stops svc get log k"])
     (auto intro: LeastI dest: not_less_Least)

lemma ibm_create_vm_pair:
  fixes m :: "'a IBMCodeEngine_scheme"
  assumes "ibm_command m = CmdStr cmd"
    and "ibm_create_vm svc cfg m log = Some (Inr (i, e), log')"
  shows "\<exists>iu eu. i = Some iu \<and> e = Some eu"
  using assms
  by (auto simp: ibm_create_vm_def Let_def split: sum.splits option.splits prod.splits
           dest: ibm_ready_result_Inr)

lemma ibm_create_vm_new_calls:
  fixes m :: "'a IBMCodeEngine_scheme"
  assumes ret: "ibm_create_vm svc cfg m log = Some (r, log')"
  shows "\<exists>new. log' = log @ new \<and>
           (\<forall>p. IbmCreateApp p \<in> set new \<longrightarrow> (\<exists>pc. p = ibm_create_app_payload cfg m pc)) \<and>
           (\<forall>p. IbmCreateJobRun p \<in> set new \<longrightarrow> (\<exists>pc. p = ibm_create_job_run_payload m pc))"
proof (cases "ibm_command m")
  case (CmdStr cmd)
  show ?thesis
  proof (cases "ibm_python_command cmd")
    case (Inl e)
    with CmdStr ret have "log' = log @ []" by (simp add: ibm_create_vm_def)
    then show ?thesis by (intro exI [of _ "[]"]) simp
  next
    case (Inr pc)
    let ?create = "IbmCreateApp (ibm_create_app_payload cfg m pc)"
    let ?get = "IbmGetApp (ibm_project_id m) (ibm_name m)"
    show ?thesis
    proof (cases "svc log ?create")
      case (Inl e)
      with CmdStr Inr ret have "log' = log @ [?create]" by (simp add: ibm_create_vm_def)
      then show ?thesis by (intro exI [of _ "[?create]"]) auto
    next
      case created: (Inr resp)
      from ret obtain y where w: "ibm_wait_ready svc ?get (log @ [?create]) = Some y"
        and l: "snd y = log'"
        by (auto simp: ibm_create_vm_app_path [where svc = svc and log = log, OF CmdStr Inr created]
                 split: option.splits sum.splits prod.splits)
      from ibm_wait_ready_result [OF w] l obtain n where
        "log' = (log @ [?create]) @ replicate (Suc n) ?get" by auto
      then have "log' = log @ (?create # replicate (Suc n) ?get)" by simp
      then show ?thesis by (intro exI [of _ "?create # replicate (Suc n) ?get"]) auto
    qed
  qed
next
  case (CmdList pc)
  let ?cm = "IbmCreateConfigMap (ibm_project_id m) (ibm_name m)
               [(''DASK_INTERNAL_INHERIT_CONFIG'', cfg)]"
  let ?job = "IbmCreateJobRun (ibm_create_job_run_payload m pc)"
  from CmdList ret have "log' = log @ [?cm] \<or> log' = log @ [?cm, ?job]"
    by (auto simp: ibm_create_vm_def Let_def split: sum.splits)
  then show ?thesis
  proof
    assume "log' = log @ [?cm]"
    then show ?thesis by (intro exI [of _ "[?cm]"]) auto
  next
    assume "log' = log @ [?cm, ?job]"
    then show ?thesis by (intro exI [of _ "[?cm, ?job]"]) auto
  qed
qed

lemma ibm_start_scheduler_Inr:
  assumes cmd: "ibm_command self = CmdStr cmd"
    and ret: "ibm_start_scheduler svc cfg wait self (cl, log) = Some (Inr (), self', cl', log')"
  shows "\<exists>ip. ibm_scheduler_internal_ip cl' = Some (Some ip) \<and> ibm_internal_ip self' = Some ip"
proof -
  from ret obtain i e where v: "ibm_create_vm svc cfg self log = Some (Inr (i, e), log')"
    and cl': "ibm_scheduler_internal_ip cl' = Some i" and s': "ibm_internal_ip self' = i"
    by (auto simp: ibm_start_scheduler_def Let_def split: option.splits sum.splits prod.splits)
  from ibm_create_vm_pair [OF cmd v] obtain iu where "i = Some iu" by blast
  with cl' s' show ?thesis by simp
qed

lemma IBMCodeEngineWorker_init_command:
  assumes "IBMCodeEngineWorker_init auth dumps cl img rg pid key n wcl wo = Inr w"
  shows "\<exists>xs url. ibm_command w = CmdList xs \<and> ibm_internal_scheduler cl = Inr url \<and>
           url \<in> set xs"
  using assms
  by (auto simp: IBMCodeEngineWorker_init_def IBMCodeEngine.defs split: sum.splits)

lemma IBMCodeEngineWorker_init_unstarted:
  "ibm_scheduler_internal_ip cl = None \<Longrightarrow>
   IBMCodeEngineWorker_init auth dumps cl img rg pid key n wcl wo =
     (case IBMCodeEngine_init auth img rg pid key n (CmdList []) of
        Inl e \<Rightarrow> Inl e
      | Inr m \<Rightarrow> Inl (AttributeError ''scheduler_internal_ip''))"
  by (simp add: IBMCodeEngineWorker_init_def ibm_internal_scheduler_def split: sum.splits)

section \<open>Facts about the Fly cluster and machines\<close>

lemma create_app_named: "app_name c \<noteq> None \<Longrightarrow> create_app api u c = (Inr (), c)"
  by (simp add: create_app_def create_app_begin_def)

lemma create_app_unnamed:
  "app_name c = None \<Longrightarrow>
   create_app api u c =
     (case create_app_result api (calls c) (FlyCreateApp (''dask-'' @ take 8 u)) of
        Inl e \<Rightarrow>
          (Inl e, c \<lparr> app := Some AppFailed,
                       calls := calls c @ [FlyCreateApp (''dask-'' @ take 8 u)] \<rparr>)
      | Inr created \<Rightarrow>
          (Inr (), c \<lparr> app := Some (AppCreated created),
                        app_name := Some (''dask-'' @ take 8 u),
                        calls := calls c @ [FlyCreateApp (''dask-'' @ take 8 u)] \<rparr>))"
  by (simp add: create_app_def create_app_begin_def create_app_resume_def Let_def
           split: sum.splits)

lemma create_app_each_named: "app_name c \<noteq> None \<Longrightarrow> create_app_each api us c = c"
  by (induction us) (simp_all add: create_app_named)

lemma wait_for_app_ready:
  "app_name c \<noteq> None \<Longrightarrow> app c \<noteq> None \<Longrightarrow> wait_for_app env c = Some c"
  by (subst wait_for_app.simps) auto

lemma wait_for_app_Some:
  assumes "wait_for_app env c = Some c1"
  shows "app_name c1 \<noteq> None \<and> app c1 \<noteq> None \<and> (\<exists>n. c1 = (env ^^ n) c)"
proof (rule wait_for_app.raw_induct
         [where P = "\<lambda>env c c1. app_name c1 \<noteq> None \<and> app c1 \<noteq> None \<and> (\<exists>n. c1 = (env ^^ n) c)",
          OF _ assms])
  fix w and e :: "FlyMachineCluster \<Rightarrow> FlyMachineCluster" and x y
  assume IH: "\<And>(e :: FlyMachineCluster \<Rightarrow> FlyMachineCluster) x y. w e x = Some y \<Longrightarrow>
      app_name y \<noteq> None \<and> app y \<noteq> None \<and> (\<exists>n. y = (e ^^ n) x)"
    and body: "(if app_name x = None \<or> app x = None then w e (e x) else Some x) = Some y"
  show "app_name y \<noteq> None \<and> app y \<noteq> None \<and> (\<exists>n. y = (e ^^ n) x)"
  proof (cases "app_name x = None \<or> app x = None")
    case True
    with body have "w e (e x) = Some y" by simp
    from IH [OF this] obtain n where "app_name y \<noteq> None" "app y \<noteq> None" "y = (e ^^ n) (e x)"
      by blast
    then have "y = (e ^^ Suc n) x" by (simp add: funpow_swap1)
    with \<open>app_name y \<noteq> None\<close> \<open>app y \<noteq> None\<close> show ?thesis by blast
  next
    case False
    with body have "y = x" by simp
    then have "y = (e ^^ 0) x" by simp
    moreover from False \<open>y = x\<close> have "app_name y \<noteq> None" "app y \<noteq> None" by auto
    ultimately show ?thesis by blast
  qed
qed

lemma wait_for_app_alone:
  "app_name c = None \<or> app c = None \<Longrightarrow> wait_for_app (\<lambda>c. c) c = None"
proof (rule ccontr)
  assume blocked: "app_name c = None \<or> app c = None"
    and "wait_for_app (\<lambda>c. c) c \<noteq> None"
  then obtain c1 where w: "wait_for_app (\<lambda>c. c) c = Some c1" by auto
  from wait_for_app_Some [OF w] obtain n where
    r: "app_name c1 \<noteq> None" "app c1 \<noteq> None" and "c1 = ((\<lambda>c. c) ^^ n) c" by blast
  moreover have "((\<lambda>c::FlyMachineCluster. c) ^^ n) c = c" by (induction n) simp_all
  ultimately show False using blocked by auto
qed

lemma create_vm_after_wait:
  "wait_for_app env c = Some c1 \<Longrightarrow>
   create_vm api env self c =
     (case create_machine_result api (calls c1)
             (FlyCreateMachine (app_name c1) (fly_machine_config self) (name self) (region self)) of
        Inl e \<Rightarrow>
          Some (Inl e, self,
                c1 \<lparr> calls := calls c1 @ [FlyCreateMachine (app_name c1) (fly_machine_config self)
                                            (name self) (region self)] \<rparr>)
      | Inr m \<Rightarrow>
          Some (Inr (Some (''tcp://['' @ mi_private_ip m @ '']:8786''), external_address self),
                self \<lparr> machine := Some m,
                       address := Some (''tcp://['' @ mi_private_ip m @ '']:8786''),
                       host := Some (mi_id m @ ''.vm.'' @ fmt (app_name c1) @ ''.internal''),
                       internal_ip := Some (mi_private_ip m),
                       port := Some 8786 \<rparr>,
                c1 \<lparr> calls := calls c1 @ [FlyCreateMachine (app_name c1) (fly_machine_config self)
                                            (name self) (region self)] \<rparr>))"
  by (simp add: create_vm_def Let_def split: sum.splits)

lemma create_vm_no_wait: "wait_for_app env c = None \<Longrightarrow> create_vm api env self c = None"
  by (simp add: create_vm_def)

lemma create_vm_Some:
  assumes ret: "create_vm api env self c = Some (r, self', c')"
  shows "\<exists>c1. wait_for_app env c = Some c1 \<and> app c1 \<noteq> None \<and> app_name c1 \<noteq> None \<and>
         c' = c1 \<lparr> calls := calls c1 @ [FlyCreateMachine (app_name c1) (fly_machine_config self)
                                           (name self) (region self)] \<rparr>"
proof (cases "wait_for_app env c")
  case None
  with ret show ?thesis by (simp add: create_vm_no_wait)
next
  case (Some c1)
  from wait_for_app_Some [OF Some] have "app c1 \<noteq> None" "app_name c1 \<noteq> None" by blast+
  moreover from ret have "c' = c1 \<lparr> calls := calls c1 @ [FlyCreateMachine (app_name c1)
      (fly_machine_config self) (name self) (region self)] \<rparr>"
    by (auto simp: create_vm_after_wait [OF Some] split: sum.splits)
  ultimately show ?thesis using Some by blast
qed

lemma create_vm_last_call:
  assumes "create_vm api env self c = Some (r, self', c')"
  shows "\<exists>an. last (calls c') =
           FlyCreateMachine an (fly_machine_config self) (name self) (region self)"
proof -
  from create_vm_Some [OF assms] obtain c1 where
    "c' = c1 \<lparr> calls := calls c1 @ [FlyCreateMachine (app_name c1) (fly_machine_config self)
                                      (name self) (region self)] \<rparr>"
    by blast
  then show ?thesis by simp
qed

lemma wait_for_scheduler_returns: "wait_for_scheduler socket_open env self c = Some c"
  by (subst wait_for_scheduler.simps) (simp add: task_truth_def)

lemma start_scheduler_Inr:
  assumes "start_scheduler api socket_open env self c = Some (Inr (), self', c')"
  shows "\<exists>a. scheduler_internal_address c' = Some a \<and> address self' = Some a"
proof -
  from assms obtain c1 where w: "wait_for_app env c = Some c1"
    by (auto simp: start_scheduler_def create_vm_def split: option.splits)
  from assms show ?thesis
    by (auto simp: start_scheduler_def create_vm_after_wait [OF w] wait_for_scheduler_returns
             split: sum.splits)
qed

lemma FlyMachine_init_resources:
  "FlyMachine_init c cfg kw = Inr m \<Longrightarrow> cpus m = 1 \<and> memory_mb m = 1024"
  by (auto simp: FlyMachine_init_def split: if_splits option.splits)

lemma FlyMachineScheduler_init_resources:
  "FlyMachineScheduler_init c cfg po kws kw = Inr m \<Longrightarrow> cpus m = 1 \<and> memory_mb m = 1024"
  by (auto simp: FlyMachineScheduler_init_def split: sum.splits dest: FlyMachine_init_resources)

lemma FlyMachineWorker_init_resources:
  "FlyMachineWorker_init s c cfg u wc kws kw = Inr w \<Longrightarrow> cpus w = 1 \<and> memory_mb w = 1024"
  by (auto simp: FlyMachineWorker_init_def FlyMachine.defs split: sum.splits
           dest: FlyMachine_init_resources)

lemma fly_guest_of_config:
  "cfg_guest (fly_machine_config self) =
     \<lparr> fg_cpu_kind = ''shared'', fg_cpus = cpus self, fg_memory_mb = memory_mb self \<rparr>"
  by (simp add: fly_machine_config_def)

lemma FlyMachineWorker_init_command:
  assumes "FlyMachineWorker_init s c cfg u wc keywords kw = Inr w"
  shows "scheduler w = s \<and> (\<exists>cmd. command w = Some cmd \<and> str_contains s cmd)"
proof -
  from assms obtain m where m: "FlyMachine_init c cfg kw = Inr m"
    and w: "w = FlyMachine.extend
                 (m \<lparr> name := Some (''dask-'' @ uuid c @ ''-worker-'' @ take 8 u),
                      command := Some (join '' ''
                                   ([set_env m, ''dask'', ''worker'', s] @ keywords)) \<rparr>)
                 \<lparr> scheduler = s, worker_class = wc \<rparr>"
    by (auto simp: FlyMachineWorker_init_def split: sum.splits)
  have "str_contains s (join '' '' ([set_env m, ''dask'', ''worker'', s] @ keywords))"
    by (rule str_contains_join) simp
  with w show ?thesis by (simp add: FlyMachine.defs)
qed

section \<open>The concrete inputs, evaluated\<close>

lemma ex_ibm_scheduler_init:
  "IBMCodeEngineScheduler_init accept_key (Some ''ghcr.io/dask/dask:latest'') (Some ''eu-de'')
     (Some ''project-1'') (Some ''key'') ''dask-38b817c1-scheduler''
     ''env python -m distributed.cli.dask_scheduler'' (Some 8786) = Inr ex_ibm_scheduler"
  by (simp add: IBMCodeEngineScheduler_init_def IBMCodeEngine_init_def accept_key_def
        ex_ibm_scheduler_def IBMCodeEngine.defs)

lemma ex_ibm_command:
  "ibm_python_command ''env python -m distributed.cli.dask_scheduler'' =
     Inr [''python'', ''-m'', ''distributed.cli.dask_scheduler'', ''--protocol'', ''ws,tcp'',
          ''--port'', ''8786,8001'']"
  by (simp add: ibm_python_command_def split_ws_def isspace_def)

lemma ex_pending_never_stops:
  "\<not> ibm_poll_stops ex_ibm_pending g l k"
  by (simp add: ibm_poll_stops_def ex_ibm_pending_def)

lemma ex_ibm_wait:
  "ibm_wait_ready ex_ibm_service (IbmGetApp p n) [c] =
     Some (Inr ex_ibm_ready_app, [c, IbmGetApp p n, IbmGetApp p n, IbmGetApp p n])"
  by (simp add: ibm_wait_ready.simps ex_ibm_service_def ex_ibm_ready_app_def)

lemma ex_ibm_ready:
  "ibm_ready_result ex_ibm_ready_app =
     Inr (Some ''dask-scheduler.internal'', Some ''dask-scheduler.example.cloud'')"
  by (simp add: ibm_ready_result_def ibm_read_urls_def ibm_url_host_def split_def
        ex_ibm_ready_app_def)

lemma ex_ibm_create_vm:
  "ibm_create_vm ex_ibm_service ''{}'' (ex_ibm_scheduler \<lparr> ibm_port := Some 443 \<rparr>) [] =
   Some (Inr (Some ''dask-scheduler.internal'', Some ''dask-scheduler.example.cloud''),
         [IbmCreateApp (ibm_create_app_payload ''{}'' ex_ibm_scheduler
            [''python'', ''-m'', ''distributed.cli.dask_scheduler'', ''--protocol'', ''ws,tcp'',
             ''--port'', ''8786,8001'']),
          IbmGetApp (Some ''project-1'') ''dask-38b817c1-scheduler'',
          IbmGetApp (Some ''project-1'') ''dask-38b817c1-scheduler'',
          IbmGetApp (Some ''project-1'') ''dask-38b817c1-scheduler''])"
proof -
  have c: "ibm_command (ex_ibm_scheduler \<lparr> ibm_port := Some 443 \<rparr>) =
             CmdStr ''env python -m distributed.cli.dask_scheduler''"
    by (simp add: ex_ibm_scheduler_def)
  have p: "ibm_create_app_payload ''{}'' (ex_ibm_scheduler \<lparr> ibm_port := Some 443 \<rparr>) pc =
           ibm_create_app_payload ''{}'' ex_ibm_scheduler pc" for pc
    by (simp add: ibm_create_app_payload_def)
  have g: "ibm_project_id (ex_ibm_scheduler \<lparr> ibm_port := Some 443 \<rparr>) = Some ''project-1''"
    "ibm_name (ex_ibm_scheduler \<lparr> ibm_port := Some 443 \<rparr>) = ''dask-38b817c1-scheduler''"
    by (simp_all add: ex_ibm_scheduler_def)
  have s: "ex_ibm_service [] (IbmCreateApp q) = Inr []" for q
    by (simp add: ex_ibm_service_def)
  show ?thesis
    by (simp add: ibm_create_vm_app_path [where svc = ex_ibm_service and log = "[]",
                    OF c ex_ibm_command s] p g ex_ibm_wait ex_ibm_ready)
qed

lemma ex_ibm_start:
  "ibm_start ex_ibm_service ''{}'' (\<lambda>s. Some (Inr ())) ex_ibm_scheduler (ex_ibm_cluster, []) =
   Some (Inr (),
         ex_ibm_scheduler \<lparr> ibm_port := Some 443,
                            ibm_internal_ip := Some ''dask-scheduler.internal'',
                            ibm_external_ip := Some ''dask-scheduler.example.cloud'',
                            ibm_address := Some ''wss://dask-scheduler.example.cloud:443'',
                            ibm_running := True \<rparr>,
         ex_ibm_cluster_started,
         [IbmCreateApp (ibm_create_app_payload ''{}'' ex_ibm_scheduler
            [''python'', ''-m'', ''distributed.cli.dask_scheduler'', ''--protocol'', ''ws,tcp'',
             ''--port'', ''8786,8001'']),
          IbmGetApp (Some ''project-1'') ''dask-38b817c1-scheduler'',
          IbmGetApp (Some ''project-1'') ''dask-38b817c1-scheduler'',
          IbmGetApp (Some ''project-1'') ''dask-38b817c1-scheduler''])"
  by (simp add: ibm_start_def ibm_start_scheduler_def ex_ibm_create_vm str_int_443)
     (simp add: ex_ibm_cluster_def ex_ibm_cluster_started_def ex_ibm_scheduler_def)

lemma ex_ibm_worker_init:
  "IBMCodeEngineWorker_init accept_key ex_dumps ex_ibm_cluster_started
     (Some ''ghcr.io/dask/dask:latest'') (Some ''eu-de'') (Some ''project-1'') (Some ''key'')
     ''dask-38b817c1-worker-dc95260d'' ''distributed.cli.Nanny'' [] = Inr ex_ibm_worker"
  by (simp add: IBMCodeEngineWorker_init_def IBMCodeEngine_init_def accept_key_def
        ex_ibm_cluster_started_def ex_ibm_worker_def ex_dumps_def ibm_internal_scheduler_def
        IBMCodeEngine.defs IBMCodeEngineWorker.defs)

lemma ex_ibm_worker_create_vm:
  "ibm_create_vm ex_ibm_service ''{}'' ex_ibm_worker log =
     Some (Inr (None, None),
           log @ [IbmCreateConfigMap (Some ''project-1'') ''dask-38b817c1-worker-dc95260d''
                    [(''DASK_INTERNAL_INHERIT_CONFIG'', ''{}'')],
                  IbmCreateJobRun (ibm_create_job_run_payload ex_ibm_worker
                    [''python'', ''-m'', ''distributed.cli.dask_spec'',
                     ''ws://dask-scheduler.internal:80'', ''--spec'', ''{...}''])])"
  by (simp add: ibm_create_vm_def ex_ibm_service_def ex_ibm_worker_def)

lemma ex_ibm_add_worker:
  "ibm_add_worker accept_key ex_dumps ex_ibm_service ''{}'' ex_ibm_worker_kwargs
     (ex_ibm_cluster_started, log) =
     Some (Inr (None, None),
           log @ [IbmCreateConfigMap (Some ''project-1'') ''dask-38b817c1-worker-dc95260d''
                    [(''DASK_INTERNAL_INHERIT_CONFIG'', ''{}'')],
                  IbmCreateJobRun (ibm_create_job_run_payload ex_ibm_worker
                    [''python'', ''-m'', ''distributed.cli.dask_spec'',
                     ''ws://dask-scheduler.internal:80'', ''--spec'', ''{...}''])])"
  using ex_ibm_worker_init
  by (simp add: ibm_add_worker_def ex_ibm_worker_kwargs_def ex_ibm_worker_create_vm)

lemma ex_cluster_init:
  "FlyMachineCluster_init None (Some ''token'') None ''38b817c1'' = ex_cluster"
  by (simp add: FlyMachineCluster_init_def ex_cluster_def)

lemma ex_scheduler_init:
  "FlyMachineScheduler_init ex_cluster_with_app ''{}'' None [] ex_kwargs =
     Inr (ex_machine \<lparr> machine := None, address := None, host := None, internal_ip := None,
                       running := False \<rparr>)"
  by (simp add: FlyMachineScheduler_init_def FlyMachine_init_def ex_cluster_with_app_def
        ex_cluster_def ex_kwargs_def ex_machine_def)

lemma ex_worker_init:
  "FlyMachineWorker_init ''tcp://[fdaa:0:1::3]:8786'' ex_cluster_with_app ''{}''
     ''9f1c2d3e-aaaa'' ''FlyMachineScheduler'' [] ex_kwargs = Inr ex_worker"
  by (simp add: FlyMachineWorker_init_def FlyMachine_init_def ex_cluster_with_app_def
        ex_cluster_def ex_kwargs_def ex_worker_def FlyMachine.defs FlyMachineWorker.defs)

lemma ex_fly_wait: "wait_for_app env ex_cluster_with_app = Some ex_cluster_with_app"
  by (rule wait_for_app_ready) (simp_all add: ex_cluster_with_app_def)

lemma ex_worker_create_vm:
  "create_vm ex_fly_api env ex_worker ex_cluster_with_app =
     Some (Inr (Some ''tcp://[fdaa:0:1::3]:8786'', None),
           ex_worker \<lparr> machine := Some \<lparr> mi_id = ''148e21'', mi_private_ip = ''fdaa:0:1::3'' \<rparr>,
                       address := Some ''tcp://[fdaa:0:1::3]:8786'',
                       host := Some ''148e21.vm.dask-1b9d6bcd.internal'',
                       internal_ip := Some ''fdaa:0:1::3'', port := Some 8786 \<rparr>,
           ex_cluster_with_app
             \<lparr> calls := [FlyCreateMachine (Some ''dask-1b9d6bcd'') (fly_machine_config ex_worker)
                           (Some ''dask-38b817c1-worker-9f1c2d3e'') (Some ''lhr'')] \<rparr>)"
  by (simp add: create_vm_after_wait [OF ex_fly_wait] ex_fly_api_def)
     (simp add: ex_cluster_with_app_def ex_cluster_def ex_worker_def)

lemma ex_start_scheduler:
  "start_scheduler ex_fly_api (\<lambda>h p. False) (\<lambda>c. c)
     (ex_machine \<lparr> machine := None, address := None, host := None, internal_ip := None,
                   running := False \<rparr>) ex_cluster_with_app =
   Some (Inr (), ex_machine \<lparr> running := False \<rparr>, ex_cluster_started)"
  by (simp add: start_scheduler_def create_vm_after_wait [OF ex_fly_wait]
        wait_for_scheduler_returns ex_fly_api_def)
     (simp add: ex_cluster_started_def ex_machine_def ex_cluster_with_app_def ex_cluster_def)

lemma ex_worker_init_started:
  "FlyMachineWorker_init ''tcp://[fdaa:0:1::3]:8786'' ex_cluster_started ''{}''
     ''9f1c2d3e-aaaa'' ''FlyMachineScheduler'' [] ex_kwargs = Inr ex_worker"
  by (simp add: FlyMachineWorker_init_def FlyMachine_init_def ex_cluster_started_def
        ex_cluster_with_app_def ex_cluster_def ex_kwargs_def ex_worker_def FlyMachine.defs
        FlyMachineWorker.defs)

lemma ex_fly_wait_started: "wait_for_app env ex_cluster_started = Some ex_cluster_started"
  by (rule wait_for_app_ready)
     (simp_all add: ex_cluster_started_def ex_cluster_with_app_def)

lemma ex_add_worker:
  "add_worker (\<lambda>w c. Some (Inr (), w, c)) ex_fly_api (\<lambda>c. c) ''{}'' ''9f1c2d3e-aaaa''
     ''FlyMachineScheduler'' [] ex_kwargs ex_cluster_started =
   Some (Inr (),
         ex_cluster_started
           \<lparr> calls := calls ex_cluster_started @
                [FlyCreateMachine (Some ''dask-1b9d6bcd'') (fly_machine_config ex_worker)
                   (Some ''dask-38b817c1-worker-9f1c2d3e'') (Some ''lhr'')] \<rparr>)"
proof -
  have a: "scheduler_internal_address ex_cluster_started = Some ''tcp://[fdaa:0:1::3]:8786''"
    by (simp add: ex_cluster_started_def)
  have n: "app_name ex_cluster_started = Some ''dask-1b9d6bcd''"
    by (simp add: ex_cluster_started_def ex_cluster_with_app_def)
  have w: "name ex_worker = Some ''dask-38b817c1-worker-9f1c2d3e''" "region ex_worker = Some ''lhr''"
    by (simp_all add: ex_worker_def)
  show ?thesis
    by (simp add: add_worker_def a ex_worker_init_started worker_start_def start_worker_def
          create_vm_after_wait [OF ex_fly_wait_started] ex_fly_api_def n w)
qed

section \<open>The worker's command and the scheduler's address\<close>

text \<open>
  C1. A Fly worker's command contains, verbatim, the scheduler address its constructor
  was given, which is also what it keeps in \<open>self.scheduler\<close>. When
  \<open>start_scheduler\<close> has succeeded, the address it recorded in the cluster is the
  scheduler's own address, and a worker built with it has it in its command. For IBM,
  when \<open>start_scheduler\<close> of a scheduler (a string command) has succeeded, the cluster
  attribute \<open>scheduler_internal_ip\<close> holds the internal address that \<open>create_vm\<close>
  resolved, and the command of every worker built on that cluster has the element
  \<open>ws://<address>:80\<close>, which contains the address verbatim.
\<close>

theorem worker_command_embeds_scheduler_address:
  "(\<forall>w. FlyMachineWorker_init s c cfg u wc keywords kw = Inr w \<longrightarrow>
      scheduler w = s \<and> (\<exists>cmd. command w = Some cmd \<and> str_contains s cmd)) \<and>
   (\<forall>sch' c'. start_scheduler api socket_open env sch c0 = Some (Inr (), sch', c') \<longrightarrow>
      (\<exists>a. scheduler_internal_address c' = Some a \<and> address sch' = Some a \<and>
         (\<forall>cfg u wc keywords kw w.
            FlyMachineWorker_init a c' cfg u wc keywords kw = Inr w \<longrightarrow>
            (\<exists>cmd. command w = Some cmd \<and> str_contains a cmd)))) \<and>
   (\<forall>cmd isch' cl' log'.
      ibm_command isch = CmdStr cmd \<and>
      ibm_start_scheduler svc cfg' wait isch (cl, log) = Some (Inr (), isch', cl', log') \<longrightarrow>
      (\<exists>ip. ibm_scheduler_internal_ip cl' = Some (Some ip) \<and> ibm_internal_ip isch' = Some ip \<and>
         (\<forall>auth dumps img rg pid key n wcl wo w.
            IBMCodeEngineWorker_init auth dumps cl' img rg pid key n wcl wo = Inr w \<longrightarrow>
            (\<exists>xs. ibm_command w = CmdList xs \<and> ''ws://'' @ ip @ '':80'' \<in> set xs \<and>
                  str_contains ip (''ws://'' @ ip @ '':80'')))))"
proof -
  have a: "\<forall>w. FlyMachineWorker_init s c cfg u wc keywords kw = Inr w \<longrightarrow>
      scheduler w = s \<and> (\<exists>cmd. command w = Some cmd \<and> str_contains s cmd)"
    using FlyMachineWorker_init_command by blast
  have b: "\<exists>a. scheduler_internal_address c' = Some a \<and> address sch' = Some a \<and>
         (\<forall>cfg u wc keywords kw w.
            FlyMachineWorker_init a c' cfg u wc keywords kw = Inr w \<longrightarrow>
            (\<exists>cmd. command w = Some cmd \<and> str_contains a cmd))"
    if "start_scheduler api socket_open env sch c0 = Some (Inr (), sch', c')" for sch' c'
    using start_scheduler_Inr [OF that] FlyMachineWorker_init_command by blast
  have i: "\<exists>ip. ibm_scheduler_internal_ip cl' = Some (Some ip) \<and> ibm_internal_ip isch' = Some ip \<and>
         (\<forall>auth dumps img rg pid key n wcl wo w.
            IBMCodeEngineWorker_init auth dumps cl' img rg pid key n wcl wo = Inr w \<longrightarrow>
            (\<exists>xs. ibm_command w = CmdList xs \<and> ''ws://'' @ ip @ '':80'' \<in> set xs \<and>
                  str_contains ip (''ws://'' @ ip @ '':80'')))"
    if cmd: "ibm_command isch = CmdStr cmd"
      and ret: "ibm_start_scheduler svc cfg' wait isch (cl, log) = Some (Inr (), isch', cl', log')"
    for cmd isch' cl' log'
  proof -
    from ibm_start_scheduler_Inr [OF cmd ret] obtain ip where
      ip: "ibm_scheduler_internal_ip cl' = Some (Some ip)" "ibm_internal_ip isch' = Some ip"
      by blast
    then have url: "ibm_internal_scheduler cl' = Inr (''ws://'' @ ip @ '':80'')"
      by (simp add: ibm_internal_scheduler_def)
    have sub: "str_contains ip (''ws://'' @ ip @ '':80'')"
      by (rule str_contains_append)
    have "\<exists>xs. ibm_command w = CmdList xs \<and> ''ws://'' @ ip @ '':80'' \<in> set xs \<and>
                  str_contains ip (''ws://'' @ ip @ '':80'')"
      if "IBMCodeEngineWorker_init auth dumps cl' img rg pid key n wcl wo = Inr w"
      for auth dumps img rg pid key n wcl wo w
      using IBMCodeEngineWorker_init_command [OF that] url sub by auto
    with ip show ?thesis by blast
  qed
  from a b i show ?thesis by blast
qed

text \<open>
  C1 at the concrete inputs: the Fly scheduler starts on the cluster whose application
  exists and its address is recorded; the worker built with that address has it in its
  command. The IBM scheduler, with the port 443 and the protocol \<open>wss\<close> that \<open>start\<close>
  sets, starts with a service whose application is ready at the third poll; the worker
  built on the resulting cluster has \<open>ws://dask-scheduler.internal:80\<close> in its command.
\<close>

theorem worker_command_embeds_scheduler_address_witness:
  "FlyMachineWorker_init ''tcp://[fdaa:0:1::3]:8786'' ex_cluster_with_app ''{}''
     ''9f1c2d3e-aaaa'' ''FlyMachineScheduler'' [] ex_kwargs = Inr ex_worker \<and>
   scheduler ex_worker = ''tcp://[fdaa:0:1::3]:8786'' \<and>
   command ex_worker =
     Some (join '' '' [fly_set_env ''{}'', ''dask'', ''worker'', ''tcp://[fdaa:0:1::3]:8786'']) \<and>
   str_contains ''tcp://[fdaa:0:1::3]:8786''
     (join '' '' [fly_set_env ''{}'', ''dask'', ''worker'', ''tcp://[fdaa:0:1::3]:8786'']) \<and>
   start_scheduler ex_fly_api (\<lambda>h p. False) (\<lambda>c. c)
     (ex_machine \<lparr> machine := None, address := None, host := None, internal_ip := None,
                   running := False \<rparr>) ex_cluster_with_app =
     Some (Inr (), ex_machine \<lparr> running := False \<rparr>, ex_cluster_started) \<and>
   scheduler_internal_address ex_cluster_started = Some ''tcp://[fdaa:0:1::3]:8786'' \<and>
   ibm_command (ex_ibm_scheduler \<lparr> ibm_port := Some 443 \<rparr>) =
     CmdStr ''env python -m distributed.cli.dask_scheduler'' \<and>
   ibm_start_scheduler ex_ibm_service ''{}'' (\<lambda>s. Some (Inr ()))
     (ex_ibm_scheduler \<lparr> ibm_port := Some 443 \<rparr>)
     (ex_ibm_cluster \<lparr> ibm_protocol := ''wss'' \<rparr>, []) =
     Some (Inr (),
         ex_ibm_scheduler \<lparr> ibm_port := Some 443,
                            ibm_internal_ip := Some ''dask-scheduler.internal'',
                            ibm_external_ip := Some ''dask-scheduler.example.cloud'',
                            ibm_address := Some ''wss://dask-scheduler.example.cloud:443'',
                            ibm_running := True \<rparr>,
         ex_ibm_cluster_started,
         [IbmCreateApp (ibm_create_app_payload ''{}'' ex_ibm_scheduler
            [''python'', ''-m'', ''distributed.cli.dask_scheduler'', ''--protocol'', ''ws,tcp'',
             ''--port'', ''8786,8001'']),
          IbmGetApp (Some ''project-1'') ''dask-38b817c1-scheduler'',
          IbmGetApp (Some ''project-1'') ''dask-38b817c1-scheduler'',
          IbmGetApp (Some ''project-1'') ''dask-38b817c1-scheduler'']) \<and>
   ibm_scheduler_internal_ip ex_ibm_cluster_started = Some (Some ''dask-scheduler.internal'') \<and>
   IBMCodeEngineWorker_init accept_key ex_dumps ex_ibm_cluster_started
        (Some ''ghcr.io/dask/dask:latest'') (Some ''eu-de'') (Some ''project-1'') (Some ''key'')
        ''dask-38b817c1-worker-dc95260d'' ''distributed.cli.Nanny'' [] = Inr ex_ibm_worker \<and>
   ibm_command ex_ibm_worker =
     CmdList [''python'', ''-m'', ''distributed.cli.dask_spec'',
              ''ws://dask-scheduler.internal:80'', ''--spec'', ''{...}''] \<and>
   str_contains ''dask-scheduler.internal'' ''ws://dask-scheduler.internal:80''"
proof -
  note t = worker_command_embeds_scheduler_address
    [of "''tcp://[fdaa:0:1::3]:8786''" ex_cluster_with_app "''{}''" "''9f1c2d3e-aaaa''"
        "''FlyMachineScheduler''" "[]" ex_kwargs ex_fly_api "\<lambda>h p. False" "\<lambda>c. c"
        "ex_machine \<lparr> machine := None, address := None, host := None, internal_ip := None,
                       running := False \<rparr>" ex_cluster_with_app
        "ex_ibm_scheduler \<lparr> ibm_port := Some 443 \<rparr>" ex_ibm_service "''{}''"
        "\<lambda>s. Some (Inr ())" "ex_ibm_cluster \<lparr> ibm_protocol := ''wss'' \<rparr>" "[]"]
  have 1: "FlyMachineWorker_init ''tcp://[fdaa:0:1::3]:8786'' ex_cluster_with_app ''{}''
     ''9f1c2d3e-aaaa'' ''FlyMachineScheduler'' [] ex_kwargs = Inr ex_worker"
    by (rule ex_worker_init)
  from t [THEN conjunct1, rule_format, OF 1]
  obtain cmd where 2: "scheduler ex_worker = ''tcp://[fdaa:0:1::3]:8786''"
    and cmd: "command ex_worker = Some cmd" "str_contains ''tcp://[fdaa:0:1::3]:8786'' cmd"
    by blast
  have 3: "command ex_worker =
     Some (join '' '' [fly_set_env ''{}'', ''dask'', ''worker'', ''tcp://[fdaa:0:1::3]:8786''])"
    by (simp add: ex_worker_def)
  with cmd have 4: "str_contains ''tcp://[fdaa:0:1::3]:8786''
     (join '' '' [fly_set_env ''{}'', ''dask'', ''worker'', ''tcp://[fdaa:0:1::3]:8786''])"
    by simp
  have 5: "scheduler_internal_address ex_cluster_started = Some ''tcp://[fdaa:0:1::3]:8786''"
    by (simp add: ex_cluster_started_def)
  have 6: "ibm_command (ex_ibm_scheduler \<lparr> ibm_port := Some 443 \<rparr>) =
     CmdStr ''env python -m distributed.cli.dask_scheduler''"
    by (simp add: ex_ibm_scheduler_def)
  have 7: "ibm_start_scheduler ex_ibm_service ''{}'' (\<lambda>s. Some (Inr ()))
     (ex_ibm_scheduler \<lparr> ibm_port := Some 443 \<rparr>)
     (ex_ibm_cluster \<lparr> ibm_protocol := ''wss'' \<rparr>, []) =
     Some (Inr (),
         ex_ibm_scheduler \<lparr> ibm_port := Some 443,
                            ibm_internal_ip := Some ''dask-scheduler.internal'',
                            ibm_external_ip := Some ''dask-scheduler.example.cloud'',
                            ibm_address := Some ''wss://dask-scheduler.example.cloud:443'',
                            ibm_running := True \<rparr>,
         ex_ibm_cluster_started,
         [IbmCreateApp (ibm_create_app_payload ''{}'' ex_ibm_scheduler
            [''python'', ''-m'', ''distributed.cli.dask_scheduler'', ''--protocol'', ''ws,tcp'',
             ''--port'', ''8786,8001'']),
          IbmGetApp (Some ''project-1'') ''dask-38b817c1-scheduler'',
          IbmGetApp (Some ''project-1'') ''dask-38b817c1-scheduler'',
          IbmGetApp (Some ''project-1'') ''dask-38b817c1-scheduler''])"
    using ex_ibm_start by (simp add: ibm_start_def)
  have 8: "ibm_scheduler_internal_ip ex_ibm_cluster_started =
             Some (Some ''dask-scheduler.internal'')"
    by (simp add: ex_ibm_cluster_started_def)
  have 9: "ibm_command ex_ibm_worker =
     CmdList [''python'', ''-m'', ''distributed.cli.dask_spec'',
              ''ws://dask-scheduler.internal:80'', ''--spec'', ''{...}'']"
    by (simp add: ex_ibm_worker_def)
  from t [THEN conjunct2, THEN conjunct2, rule_format, OF conjI [OF 6 7]]
  obtain ip where
    ip: "ibm_scheduler_internal_ip ex_ibm_cluster_started = Some (Some ip)"
    and all: "\<forall>auth dumps img rg pid key n wcl wo w.
        IBMCodeEngineWorker_init auth dumps ex_ibm_cluster_started img rg pid key n wcl wo = Inr w \<longrightarrow>
        (\<exists>xs. ibm_command w = CmdList xs \<and> ''ws://'' @ ip @ '':80'' \<in> set xs \<and>
              str_contains ip (''ws://'' @ ip @ '':80''))"
    by blast
  from all ex_ibm_worker_init have sc: "str_contains ip (''ws://'' @ ip @ '':80'')"
    by blast
  from ip 8 have e: "ip = ''dask-scheduler.internal''" by simp
  from sc have "str_contains ''dask-scheduler.internal''
                  (''ws://'' @ ''dask-scheduler.internal'' @ '':80'')"
    unfolding e .
  then have 10: "str_contains ''dask-scheduler.internal'' ''ws://dask-scheduler.internal:80''"
    by simp
  from 1 2 3 4 ex_start_scheduler 5 6 7 8 ex_ibm_worker_init 9 10 show ?thesis by blast
qed

section \<open>Address resolution\<close>

text \<open>
  C2, as the code has it. On the application path of \<open>IBMCodeEngine.create_vm\<close> (a string
  command, a command line with a \<open>python\<close> component, an accepted create call) the method
  polls \<open>get_app\<close> with no bound and has no timeout error: it never returns exactly when
  no poll ever ends the loop. It returns at the first poll that ends the loop, after the
  create call and just those polls: with the error of that call, with the \<open>KeyError\<close> of a
  response without a status, and otherwise with what the reads of that same response
  give. When that response reports \<open>ready\<close>, has a name and both URLs have a part after
  \<open>//\<close>, the method returns the pair of both those parts. Every pair it returns has both
  addresses, read from the last response; every error it raises is the error of a
  \<open>get_app\<close> call, a \<open>KeyError\<close> for \<open>status\<close>, \<open>name\<close>, \<open>endpoint_internal\<close> or \<open>endpoint\<close>, or
  the \<open>IndexError\<close> of a URL without \<open>//\<close>. The job path returns \<open>(None, None)\<close> after
  its two calls, without polling. \<open>FlyMachine.create_vm\<close> returns the address of the
  machine it created together with \<open>external_address\<close> as it was, which it never assigns.
\<close>

theorem ibm_create_vm_polling:
  fixes m :: "'a IBMCodeEngine_scheme" and jw :: "'b IBMCodeEngine_scheme"
    and self :: "'c FlyMachine_scheme"
  assumes cmd: "ibm_command m = CmdStr cmd" and pc: "ibm_python_command cmd = Inr pc"
    and created: "svc log (IbmCreateApp (ibm_create_app_payload cfg m pc)) = Inr created"
  shows
   "(ibm_create_vm svc cfg m log = None \<longleftrightarrow>
       (\<forall>k. \<not> ibm_poll_stops svc (IbmGetApp (ibm_project_id m) (ibm_name m))
                 (log @ [IbmCreateApp (ibm_create_app_payload cfg m pc)]) k)) \<and>
    (\<forall>k. ibm_poll_stops svc (IbmGetApp (ibm_project_id m) (ibm_name m))
            (log @ [IbmCreateApp (ibm_create_app_payload cfg m pc)]) k \<and>
         (\<forall>j<k. \<not> ibm_poll_stops svc (IbmGetApp (ibm_project_id m) (ibm_name m))
                    (log @ [IbmCreateApp (ibm_create_app_payload cfg m pc)]) j) \<longrightarrow>
         ibm_create_vm svc cfg m log =
           Some (case ibm_poll_result svc (IbmGetApp (ibm_project_id m) (ibm_name m))
                        (log @ [IbmCreateApp (ibm_create_app_payload cfg m pc)]) k of
                   Inl e \<Rightarrow> Inl e
                 | Inr a \<Rightarrow> ibm_ready_result a,
                 (log @ [IbmCreateApp (ibm_create_app_payload cfg m pc)])
                   @ replicate (Suc k) (IbmGetApp (ibm_project_id m) (ibm_name m)))) \<and>
    (\<forall>k a iu eu.
         (\<forall>j<k. \<not> ibm_poll_stops svc (IbmGetApp (ibm_project_id m) (ibm_name m))
                    (log @ [IbmCreateApp (ibm_create_app_payload cfg m pc)]) j) \<and>
         svc ((log @ [IbmCreateApp (ibm_create_app_payload cfg m pc)])
                @ replicate k (IbmGetApp (ibm_project_id m) (ibm_name m)))
             (IbmGetApp (ibm_project_id m) (ibm_name m)) = Inr a \<and>
         dict_get a ''status'' = Some ''ready'' \<and> dict_get a ''name'' \<noteq> None \<and>
         ibm_url_host a ''endpoint_internal'' = Inr iu \<and>
         ibm_url_host a ''endpoint'' = Inr eu \<longrightarrow>
         ibm_create_vm svc cfg m log =
           Some (Inr (Some iu, Some eu),
                 (log @ [IbmCreateApp (ibm_create_app_payload cfg m pc)])
                   @ replicate (Suc k) (IbmGetApp (ibm_project_id m) (ibm_name m)))) \<and>
    (\<forall>i e log'. ibm_create_vm svc cfg m log = Some (Inr (i, e), log') \<longrightarrow>
       (\<exists>a iu eu n. i = Some iu \<and> e = Some eu \<and>
          svc (butlast log') (IbmGetApp (ibm_project_id m) (ibm_name m)) = Inr a \<and>
          dict_get a ''status'' = Some ''ready'' \<and> dict_get a ''name'' \<noteq> None \<and>
          ibm_url_host a ''endpoint_internal'' = Inr iu \<and>
          ibm_url_host a ''endpoint'' = Inr eu \<and>
          log' = log @ IbmCreateApp (ibm_create_app_payload cfg m pc)
                   # replicate (Suc n) (IbmGetApp (ibm_project_id m) (ibm_name m)))) \<and>
    (\<forall>err log'. ibm_create_vm svc cfg m log = Some (Inl err, log') \<longrightarrow>
       (\<exists>k. svc ((log @ [IbmCreateApp (ibm_create_app_payload cfg m pc)])
                   @ replicate k (IbmGetApp (ibm_project_id m) (ibm_name m)))
                (IbmGetApp (ibm_project_id m) (ibm_name m)) = Inl err) \<or>
       err \<in> {KeyError ''status'', KeyError ''name'', KeyError ''endpoint_internal'',
              KeyError ''endpoint'', IndexError}) \<and>
    (\<forall>pcl p log'. ibm_command jw = CmdList pcl \<and>
         ibm_create_vm svc cfg jw log = Some (Inr p, log') \<longrightarrow>
         p = (None, None) \<and>
         log' = log @ [IbmCreateConfigMap (ibm_project_id jw) (ibm_name jw)
                         [(''DASK_INTERNAL_INHERIT_CONFIG'', cfg)],
                       IbmCreateJobRun (ibm_create_job_run_payload jw pcl)]) \<and>
    (\<forall>a x self' c'. create_vm api env self c = Some (Inr (a, x), self', c') \<longrightarrow>
         (\<exists>mch. machine self' = Some mch \<and>
                a = Some (''tcp://['' @ mi_private_ip mch @ '']:8786'')) \<and>
         x = external_address self)"
proof -
  let ?get = "IbmGetApp (ibm_project_id m) (ibm_name m)"
  let ?log1 = "log @ [IbmCreateApp (ibm_create_app_payload cfg m pc)]"
  note path = ibm_create_vm_app_path [where svc = svc and log = log, OF cmd pc created]
  have nonret: "ibm_create_vm svc cfg m log = None \<longleftrightarrow> ibm_wait_ready svc ?get ?log1 = None"
    by (simp add: path split: option.splits sum.splits prod.splits)
  have A: "ibm_create_vm svc cfg m log = None \<longleftrightarrow> (\<forall>k. \<not> ibm_poll_stops svc ?get ?log1 k)"
  proof
    assume "ibm_create_vm svc cfg m log = None"
    then have "ibm_wait_ready svc ?get ?log1 = None" by (simp add: nonret)
    then show "\<forall>k. \<not> ibm_poll_stops svc ?get ?log1 k"
      using ibm_wait_ready_returns [of svc ?get ?log1] by fastforce
  next
    assume "\<forall>k. \<not> ibm_poll_stops svc ?get ?log1 k"
    then show "ibm_create_vm svc cfg m log = None"
      by (simp add: nonret ibm_wait_ready_forever)
  qed
  have B: "ibm_create_vm svc cfg m log =
           Some (case ibm_poll_result svc ?get ?log1 k of
                   Inl e \<Rightarrow> Inl e
                 | Inr a \<Rightarrow> ibm_ready_result a,
                 ?log1 @ replicate (Suc k) ?get)"
    if "ibm_poll_stops svc ?get ?log1 k" "\<forall>j<k. \<not> ibm_poll_stops svc ?get ?log1 j" for k
  proof -
    from that have "ibm_wait_ready svc ?get ?log1 =
        Some (ibm_poll_result svc ?get ?log1 k, ?log1 @ replicate (Suc k) ?get)"
      by (rule ibm_wait_ready_first_stop)
    then show ?thesis by (simp add: path split: sum.splits)
  qed
  have C: "ibm_create_vm svc cfg m log =
           Some (Inr (Some iu, Some eu), ?log1 @ replicate (Suc k) ?get)"
    if first: "\<forall>j<k. \<not> ibm_poll_stops svc ?get ?log1 j"
      and resp: "svc (?log1 @ replicate k ?get) ?get = Inr a"
      and st: "dict_get a ''status'' = Some ''ready''" and nm: "dict_get a ''name'' \<noteq> None"
      and iu: "ibm_url_host a ''endpoint_internal'' = Inr iu"
      and eu: "ibm_url_host a ''endpoint'' = Inr eu"
    for k a iu eu
  proof -
    from resp st have stops: "ibm_poll_stops svc ?get ?log1 k"
      by (simp add: ibm_poll_stops_def)
    from resp st have r: "ibm_poll_result svc ?get ?log1 k = Inr a"
      by (simp add: ibm_poll_result_def)
    from nm iu eu have "ibm_ready_result a = Inr (Some iu, Some eu)"
      by (auto simp: ibm_ready_result_def ibm_read_urls_def)
    with B [OF stops first] r show ?thesis by simp
  qed
  have D: "\<exists>a iu eu n. i = Some iu \<and> e = Some eu \<and>
               svc (butlast log') ?get = Inr a \<and>
               dict_get a ''status'' = Some ''ready'' \<and> dict_get a ''name'' \<noteq> None \<and>
               ibm_url_host a ''endpoint_internal'' = Inr iu \<and>
               ibm_url_host a ''endpoint'' = Inr eu \<and>
               log' = log @ IbmCreateApp (ibm_create_app_payload cfg m pc) # replicate (Suc n) ?get"
    if ret: "ibm_create_vm svc cfg m log = Some (Inr (i, e), log')" for i e log'
  proof -
    from ret obtain a where w: "ibm_wait_ready svc ?get ?log1 = Some (Inr a, log')"
      and urls: "ibm_ready_result a = Inr (i, e)"
      by (auto simp: path split: option.splits sum.splits prod.splits)
    from ibm_wait_ready_result [OF w] obtain n where
      "log' = ?log1 @ replicate (Suc n) ?get" "dict_get a ''status'' = Some ''ready''"
      "svc (butlast log') ?get = Inr a"
      by auto
    moreover from ibm_ready_result_Inr [OF urls] obtain iu eu where
      "i = Some iu" "e = Some eu" "dict_get a ''name'' \<noteq> None"
      "ibm_url_host a ''endpoint_internal'' = Inr iu"
      "ibm_url_host a ''endpoint'' = Inr eu"
      by blast
    ultimately show ?thesis by auto
  qed
  have E: "(\<exists>k. svc (?log1 @ replicate k ?get) ?get = Inl err) \<or>
       err \<in> {KeyError ''status'', KeyError ''name'', KeyError ''endpoint_internal'',
              KeyError ''endpoint'', IndexError}"
    if ret: "ibm_create_vm svc cfg m log = Some (Inl err, log')" for err log'
  proof -
    from ret have "ibm_create_vm svc cfg m log \<noteq> None" by simp
    with A obtain n where "ibm_poll_stops svc ?get ?log1 n" by blast
    from ibm_first_stop [OF this] obtain k where
      k: "ibm_poll_stops svc ?get ?log1 k" "\<forall>j<k. \<not> ibm_poll_stops svc ?get ?log1 j"
      by blast
    from B [OF k] ret have err: "(case ibm_poll_result svc ?get ?log1 k of
                   Inl e \<Rightarrow> Inl e
                 | Inr a \<Rightarrow> ibm_ready_result a) = Inl err"
      by simp
    show ?thesis
    proof (cases "ibm_poll_result svc ?get ?log1 k")
      case (Inl e)
      with err have "e = err" by simp
      with Inl have "svc (?log1 @ replicate k ?get) ?get = Inl err \<or> err = KeyError ''status''"
        by (auto simp: ibm_poll_result_def split: sum.splits option.splits)
      then show ?thesis by blast
    next
      case (Inr a)
      with err have "ibm_ready_result a = Inl err" by simp
      from ibm_ready_result_Inl [OF this] show ?thesis by blast
    qed
  qed
  have F: "p = (None, None) \<and>
         log' = log @ [IbmCreateConfigMap (ibm_project_id jw) (ibm_name jw)
                         [(''DASK_INTERNAL_INHERIT_CONFIG'', cfg)],
                       IbmCreateJobRun (ibm_create_job_run_payload jw pcl)]"
    if "ibm_command jw = CmdList pcl" "ibm_create_vm svc cfg jw log = Some (Inr p, log')"
    for pcl p log'
    using that by (auto simp: ibm_create_vm_def Let_def split: sum.splits)
  have G: "(\<exists>mch. machine self' = Some mch \<and>
                a = Some (''tcp://['' @ mi_private_ip mch @ '']:8786'')) \<and>
         x = external_address self"
    if ret: "create_vm api env self c = Some (Inr (a, x), self', c')" for a x self' c'
  proof -
    from create_vm_Some [OF ret] obtain c1 where w: "wait_for_app env c = Some c1" by blast
    from ret show ?thesis
      by (auto simp: create_vm_after_wait [OF w] split: sum.splits)
  qed
  from A B C D E F G show ?thesis by blast
qed

text \<open>
  C2, amended, at the scheduler above with the service that is ready at the third poll:
  the hypotheses hold, the first two polls do not end the loop, the third response is
  ready with a name and both URLs, and the method returns both addresses after the
  create call and three polls.
\<close>

theorem ibm_create_vm_polling_witness:
  "ibm_command ex_ibm_scheduler = CmdStr ''env python -m distributed.cli.dask_scheduler'' \<and>
   ibm_python_command ''env python -m distributed.cli.dask_scheduler'' =
     Inr [''python'', ''-m'', ''distributed.cli.dask_scheduler'', ''--protocol'', ''ws,tcp'',
          ''--port'', ''8786,8001''] \<and>
   ex_ibm_service []
     (IbmCreateApp (ibm_create_app_payload ''{}'' ex_ibm_scheduler
        [''python'', ''-m'', ''distributed.cli.dask_scheduler'', ''--protocol'', ''ws,tcp'',
         ''--port'', ''8786,8001''])) = Inr [] \<and>
   \<not> ibm_poll_stops ex_ibm_service
       (IbmGetApp (ibm_project_id ex_ibm_scheduler) (ibm_name ex_ibm_scheduler))
       ([] @ [IbmCreateApp (ibm_create_app_payload ''{}'' ex_ibm_scheduler
          [''python'', ''-m'', ''distributed.cli.dask_scheduler'', ''--protocol'', ''ws,tcp'',
           ''--port'', ''8786,8001''])]) 0 \<and>
   \<not> ibm_poll_stops ex_ibm_service
       (IbmGetApp (ibm_project_id ex_ibm_scheduler) (ibm_name ex_ibm_scheduler))
       ([] @ [IbmCreateApp (ibm_create_app_payload ''{}'' ex_ibm_scheduler
          [''python'', ''-m'', ''distributed.cli.dask_scheduler'', ''--protocol'', ''ws,tcp'',
           ''--port'', ''8786,8001''])]) 1 \<and>
   ex_ibm_service
     (([] @ [IbmCreateApp (ibm_create_app_payload ''{}'' ex_ibm_scheduler
          [''python'', ''-m'', ''distributed.cli.dask_scheduler'', ''--protocol'', ''ws,tcp'',
           ''--port'', ''8786,8001''])])
        @ replicate 2 (IbmGetApp (ibm_project_id ex_ibm_scheduler) (ibm_name ex_ibm_scheduler)))
     (IbmGetApp (ibm_project_id ex_ibm_scheduler) (ibm_name ex_ibm_scheduler))
     = Inr ex_ibm_ready_app \<and>
   dict_get ex_ibm_ready_app ''status'' = Some ''ready'' \<and>
   dict_get ex_ibm_ready_app ''name'' = Some ''dask-38b817c1-scheduler'' \<and>
   ibm_url_host ex_ibm_ready_app ''endpoint_internal'' = Inr ''dask-scheduler.internal'' \<and>
   ibm_url_host ex_ibm_ready_app ''endpoint'' = Inr ''dask-scheduler.example.cloud'' \<and>
   ibm_create_vm ex_ibm_service ''{}'' ex_ibm_scheduler [] =
     Some (Inr (Some ''dask-scheduler.internal'', Some ''dask-scheduler.example.cloud''),
           [IbmCreateApp (ibm_create_app_payload ''{}'' ex_ibm_scheduler
              [''python'', ''-m'', ''distributed.cli.dask_scheduler'', ''--protocol'', ''ws,tcp'',
               ''--port'', ''8786,8001'']),
            IbmGetApp (Some ''project-1'') ''dask-38b817c1-scheduler'',
            IbmGetApp (Some ''project-1'') ''dask-38b817c1-scheduler'',
            IbmGetApp (Some ''project-1'') ''dask-38b817c1-scheduler''])"
proof -
  let ?pc = "[''python'', ''-m'', ''distributed.cli.dask_scheduler'', ''--protocol'', ''ws,tcp'',
              ''--port'', ''8786,8001'']"
  let ?create = "IbmCreateApp (ibm_create_app_payload ''{}'' ex_ibm_scheduler ?pc)"
  let ?get = "IbmGetApp (ibm_project_id ex_ibm_scheduler) (ibm_name ex_ibm_scheduler)"
  have h1: "ibm_command ex_ibm_scheduler = CmdStr ''env python -m distributed.cli.dask_scheduler''"
    by (simp add: ex_ibm_scheduler_def)
  have h2: "ibm_python_command ''env python -m distributed.cli.dask_scheduler'' = Inr ?pc"
    by (rule ex_ibm_command)
  have h3: "ex_ibm_service [] ?create = Inr []"
    by (simp add: ex_ibm_service_def)
  have n0: "\<not> ibm_poll_stops ex_ibm_service ?get ([] @ [?create]) 0"
    and n1: "\<not> ibm_poll_stops ex_ibm_service ?get ([] @ [?create]) 1"
    by (simp_all add: ibm_poll_stops_def ex_ibm_service_def)
  have first: "\<forall>j<2. \<not> ibm_poll_stops ex_ibm_service ?get ([] @ [?create]) j"
  proof (intro allI impI)
    fix j :: nat assume "j < 2"
    then have "j = 0 \<or> j = 1" by auto
    with n0 n1 show "\<not> ibm_poll_stops ex_ibm_service ?get ([] @ [?create]) j" by auto
  qed
  have r: "ex_ibm_service (([] @ [?create]) @ replicate 2 ?get) ?get = Inr ex_ibm_ready_app"
    by (simp add: ex_ibm_service_def numeral_2_eq_2)
  have st: "dict_get ex_ibm_ready_app ''status'' = Some ''ready''"
    and nm: "dict_get ex_ibm_ready_app ''name'' = Some ''dask-38b817c1-scheduler''"
    by (simp_all add: ex_ibm_ready_app_def)
  have iu: "ibm_url_host ex_ibm_ready_app ''endpoint_internal'' = Inr ''dask-scheduler.internal''"
    and eu: "ibm_url_host ex_ibm_ready_app ''endpoint'' = Inr ''dask-scheduler.example.cloud''"
    by (simp_all add: ibm_url_host_def ex_ibm_ready_app_def split_def)
  from nm have nm': "dict_get ex_ibm_ready_app ''name'' \<noteq> None" by simp
  note t = ibm_create_vm_polling [where svc = ex_ibm_service and log = "[]", OF h1 h2 h3]
  from t [THEN conjunct2, THEN conjunct2, THEN conjunct1, rule_format,
          of 2 ex_ibm_ready_app "''dask-scheduler.internal''" "''dask-scheduler.example.cloud''"]
    first r st nm' iu eu
  have "ibm_create_vm ex_ibm_service ''{}'' ex_ibm_scheduler [] =
     Some (Inr (Some ''dask-scheduler.internal'', Some ''dask-scheduler.example.cloud''),
           ([] @ [?create]) @ replicate (Suc 2) ?get)"
    by blast
  then have res: "ibm_create_vm ex_ibm_service ''{}'' ex_ibm_scheduler [] =
     Some (Inr (Some ''dask-scheduler.internal'', Some ''dask-scheduler.example.cloud''),
           [?create, IbmGetApp (Some ''project-1'') ''dask-38b817c1-scheduler'',
            IbmGetApp (Some ''project-1'') ''dask-38b817c1-scheduler'',
            IbmGetApp (Some ''project-1'') ''dask-38b817c1-scheduler''])"
    by (simp add: numeral_2_eq_2 ex_ibm_scheduler_def)
  from h1 h2 h3 n0 n1 r st nm iu eu res show ?thesis by blast
qed

text \<open>
  C2 as stated fails: with a service whose application never reports \<open>ready\<close>, the
  method neither returns a pair nor fails with a timeout; it does not return at all.
\<close>

theorem ibm_create_vm_never_returns:
  "ibm_create_vm ex_ibm_pending ''{}'' ex_ibm_scheduler [] = None"
proof -
  have "ibm_wait_ready ex_ibm_pending g l = None" for g l
    by (rule ibm_wait_ready_forever) (simp add: ex_pending_never_stops)
  then show ?thesis
    by (simp add: ibm_create_vm_def ex_ibm_scheduler_def ex_ibm_command ex_ibm_pending_def)
qed

section \<open>Resource limits\<close>

text \<open>
  C3. Whatever the constructor arguments are, \<open>cpus\<close> and \<open>memory_mb\<close> among them, a
  Fly scheduler or worker that has been constructed has \<open>cpus = 1\<close> and
  \<open>memory_mb = 1024\<close>, and the \<open>create_machine\<close> call that \<open>create_vm\<close> issues for it
  carries the guest \<open>shared\<close>, 1 CPU, 1024 MB. For IBM, every \<open>create_app\<close> and
  \<open>create_job_run\<close> call that \<open>create_vm\<close> issues carries the CPU limit \<open>0.25\<close> and the
  memory limit \<open>1G\<close>, for every instance.
\<close>

theorem resources_are_hardcoded:
  fixes im :: "'a IBMCodeEngine_scheme"
  shows
  "(\<forall>m. FlyMachineScheduler_init c cfg port_option keywords kw = Inr m \<longrightarrow>
      cpus m = 1 \<and> memory_mb m = 1024 \<and>
      (\<forall>api env c0 r m' c'. create_vm api env m c0 = Some (r, m', c') \<longrightarrow>
         (\<exists>an conf n rg. last (calls c') = FlyCreateMachine an conf n rg \<and>
            cfg_guest conf = \<lparr> fg_cpu_kind = ''shared'', fg_cpus = 1, fg_memory_mb = 1024 \<rparr>))) \<and>
   (\<forall>w. FlyMachineWorker_init s c cfg u wc keywords kw = Inr w \<longrightarrow>
      cpus w = 1 \<and> memory_mb w = 1024 \<and>
      (\<forall>api env c0 r w' c'. create_vm api env w c0 = Some (r, w', c') \<longrightarrow>
         (\<exists>an conf n rg. last (calls c') = FlyCreateMachine an conf n rg \<and>
            cfg_guest conf = \<lparr> fg_cpu_kind = ''shared'', fg_cpus = 1, fg_memory_mb = 1024 \<rparr>))) \<and>
   (\<forall>r log'. ibm_create_vm svc cfg' im log = Some (r, log') \<longrightarrow>
      (\<exists>new. log' = log @ new \<and>
         (\<forall>p. IbmCreateApp p \<in> set new \<longrightarrow>
            ap_scale_cpu_limit p = ''0.25'' \<and> ap_scale_memory_limit p = ''1G'') \<and>
         (\<forall>p. IbmCreateJobRun p \<in> set new \<longrightarrow>
            jp_scale_cpu_limit p = ''0.25'' \<and> jp_scale_memory_limit p = ''1G'')))"
proof -
  have fly: "\<exists>an conf n rg. last (calls c') = FlyCreateMachine an conf n rg \<and>
            cfg_guest conf = \<lparr> fg_cpu_kind = ''shared'', fg_cpus = 1, fg_memory_mb = 1024 \<rparr>"
    if res: "cpus self = 1" "memory_mb self = 1024"
      and ret: "create_vm api env self c0 = Some (r, self', c')"
    for self self' :: "'b FlyMachine_scheme" and api env c0 r c'
  proof -
    from create_vm_last_call [OF ret] obtain an where
      "last (calls c') = FlyCreateMachine an (fly_machine_config self) (name self) (region self)"
      by blast
    moreover have "cfg_guest (fly_machine_config self) =
        \<lparr> fg_cpu_kind = ''shared'', fg_cpus = 1, fg_memory_mb = 1024 \<rparr>"
      by (simp add: fly_guest_of_config res)
    ultimately show ?thesis by blast
  qed
  have a: "\<forall>m. FlyMachineScheduler_init c cfg port_option keywords kw = Inr m \<longrightarrow>
      cpus m = 1 \<and> memory_mb m = 1024 \<and>
      (\<forall>api env c0 r m' c'. create_vm api env m c0 = Some (r, m', c') \<longrightarrow>
         (\<exists>an conf n rg. last (calls c') = FlyCreateMachine an conf n rg \<and>
            cfg_guest conf = \<lparr> fg_cpu_kind = ''shared'', fg_cpus = 1, fg_memory_mb = 1024 \<rparr>))"
    using FlyMachineScheduler_init_resources fly by blast
  have b: "\<forall>w. FlyMachineWorker_init s c cfg u wc keywords kw = Inr w \<longrightarrow>
      cpus w = 1 \<and> memory_mb w = 1024 \<and>
      (\<forall>api env c0 r w' c'. create_vm api env w c0 = Some (r, w', c') \<longrightarrow>
         (\<exists>an conf n rg. last (calls c') = FlyCreateMachine an conf n rg \<and>
            cfg_guest conf = \<lparr> fg_cpu_kind = ''shared'', fg_cpus = 1, fg_memory_mb = 1024 \<rparr>))"
    using FlyMachineWorker_init_resources fly by blast
  have i: "\<exists>new. log' = log @ new \<and>
         (\<forall>p. IbmCreateApp p \<in> set new \<longrightarrow>
            ap_scale_cpu_limit p = ''0.25'' \<and> ap_scale_memory_limit p = ''1G'') \<and>
         (\<forall>p. IbmCreateJobRun p \<in> set new \<longrightarrow>
            jp_scale_cpu_limit p = ''0.25'' \<and> jp_scale_memory_limit p = ''1G'')"
    if ret: "ibm_create_vm svc cfg' im log = Some (r, log')" for r log'
  proof -
    from ibm_create_vm_new_calls [OF ret] obtain new where
      n: "log' = log @ new"
      and ap: "\<forall>p. IbmCreateApp p \<in> set new \<longrightarrow> (\<exists>pc. p = ibm_create_app_payload cfg' im pc)"
      and jp: "\<forall>p. IbmCreateJobRun p \<in> set new \<longrightarrow> (\<exists>pc. p = ibm_create_job_run_payload im pc)"
      by blast
    from ap have "\<forall>p. IbmCreateApp p \<in> set new \<longrightarrow>
        ap_scale_cpu_limit p = ''0.25'' \<and> ap_scale_memory_limit p = ''1G''"
      by (auto simp: ibm_create_app_payload_def)
    moreover from jp have "\<forall>p. IbmCreateJobRun p \<in> set new \<longrightarrow>
        jp_scale_cpu_limit p = ''0.25'' \<and> jp_scale_memory_limit p = ''1G''"
      by (auto simp: ibm_create_job_run_payload_def)
    ultimately show ?thesis using n by blast
  qed
  from a b i show ?thesis by blast
qed

text \<open>
  C3 at the concrete inputs: the arguments ask for 8 CPUs and 16384 MB, the worker has 1
  and 1024 and its machine is requested with them; the IBM worker's job is requested with
  \<open>0.25\<close> and \<open>1G\<close>.
\<close>

theorem resources_are_hardcoded_witness:
  "kw_cpus ex_kwargs = Some 8 \<and> kw_memory_mb ex_kwargs = Some 16384 \<and>
   FlyMachineWorker_init ''tcp://[fdaa:0:1::3]:8786'' ex_cluster_with_app ''{}''
     ''9f1c2d3e-aaaa'' ''FlyMachineScheduler'' [] ex_kwargs = Inr ex_worker \<and>
   cpus ex_worker = 1 \<and> memory_mb ex_worker = 1024 \<and>
   map_option (\<lambda>(r, w, c). calls c) (create_vm ex_fly_api (\<lambda>c. c) ex_worker ex_cluster_with_app) =
     Some [FlyCreateMachine (Some ''dask-1b9d6bcd'') (fly_machine_config ex_worker)
             (Some ''dask-38b817c1-worker-9f1c2d3e'') (Some ''lhr'')] \<and>
   cfg_guest (fly_machine_config ex_worker) =
     \<lparr> fg_cpu_kind = ''shared'', fg_cpus = 1, fg_memory_mb = 1024 \<rparr> \<and>
   ibm_create_vm ex_ibm_service ''{}'' ex_ibm_worker [] =
     Some (Inr (None, None),
           [] @ [IbmCreateConfigMap (Some ''project-1'') ''dask-38b817c1-worker-dc95260d''
                   [(''DASK_INTERNAL_INHERIT_CONFIG'', ''{}'')],
                 IbmCreateJobRun (ibm_create_job_run_payload ex_ibm_worker
                   [''python'', ''-m'', ''distributed.cli.dask_spec'', ''ws://dask-scheduler.internal:80'', ''--spec'',
                    ''{...}''])]) \<and>
   jp_scale_cpu_limit (ibm_create_job_run_payload ex_ibm_worker
       [''python'', ''-m'', ''distributed.cli.dask_spec'', ''ws://dask-scheduler.internal:80'', ''--spec'', ''{...}''])
     = ''0.25'' \<and>
   jp_scale_memory_limit (ibm_create_job_run_payload ex_ibm_worker
       [''python'', ''-m'', ''distributed.cli.dask_spec'', ''ws://dask-scheduler.internal:80'', ''--spec'', ''{...}''])
     = ''1G''"
proof -
  let ?pc = "[''python'', ''-m'', ''distributed.cli.dask_spec'', ''ws://dask-scheduler.internal:80'', ''--spec'',
              ''{...}'']"
  let ?cm = "IbmCreateConfigMap (Some ''project-1'') ''dask-38b817c1-worker-dc95260d''
               [(''DASK_INTERNAL_INHERIT_CONFIG'', ''{}'')]"
  let ?job = "IbmCreateJobRun (ibm_create_job_run_payload ex_ibm_worker ?pc)"
  note t = resources_are_hardcoded
    [of ex_cluster_with_app "''{}''" None "[]" ex_kwargs "''tcp://[fdaa:0:1::3]:8786''"
        "''9f1c2d3e-aaaa''" "''FlyMachineScheduler''" ex_ibm_service "''{}''" ex_ibm_worker "[]"]
  have k: "kw_cpus ex_kwargs = Some 8" "kw_memory_mb ex_kwargs = Some 16384"
    by (simp_all add: ex_kwargs_def)
  have 1: "FlyMachineWorker_init ''tcp://[fdaa:0:1::3]:8786'' ex_cluster_with_app ''{}''
     ''9f1c2d3e-aaaa'' ''FlyMachineScheduler'' [] ex_kwargs = Inr ex_worker"
    by (rule ex_worker_init)
  from t [THEN conjunct2, THEN conjunct1, rule_format, OF 1]
  have 2: "cpus ex_worker = 1" "memory_mb ex_worker = 1024" by blast+
  have 3: "map_option (\<lambda>(r, w, c). calls c)
             (create_vm ex_fly_api (\<lambda>c. c) ex_worker ex_cluster_with_app) =
     Some [FlyCreateMachine (Some ''dask-1b9d6bcd'') (fly_machine_config ex_worker)
             (Some ''dask-38b817c1-worker-9f1c2d3e'') (Some ''lhr'')]"
    by (simp add: ex_worker_create_vm)
  have 4: "cfg_guest (fly_machine_config ex_worker) =
     \<lparr> fg_cpu_kind = ''shared'', fg_cpus = 1, fg_memory_mb = 1024 \<rparr>"
    by (simp add: fly_guest_of_config 2)
  have 5: "ibm_create_vm ex_ibm_service ''{}'' ex_ibm_worker [] =
             Some (Inr (None, None), [] @ [?cm, ?job])"
    using ex_ibm_worker_create_vm [of "[]"] by simp
  from t [THEN conjunct2, THEN conjunct2, rule_format, OF 5]
  obtain new where n: "[] @ [?cm, ?job] = [] @ new"
    and j: "\<forall>p. IbmCreateJobRun p \<in> set new \<longrightarrow>
              jp_scale_cpu_limit p = ''0.25'' \<and> jp_scale_memory_limit p = ''1G''"
    by blast
  from n have "?job \<in> set new" by auto
  with j have 6: "jp_scale_cpu_limit (ibm_create_job_run_payload ex_ibm_worker ?pc) = ''0.25''"
    "jp_scale_memory_limit (ibm_create_job_run_payload ex_ibm_worker ?pc) = ''1G''"
    by blast+
  from k 1 2 3 4 5 6 show ?thesis by blast
qed

section \<open>Creating the application\<close>

text \<open>
  C4. When the provider's create call fails, \<open>create_app\<close> stores \<open>"failed"\<close> in
  \<open>self.app\<close>, raises the same error, and has issued that one create call and no other.
  When the call succeeds it stores the object and the generated name, and every later
  call of \<open>create_app\<close>, whatever the provider and the UUID, returns at once and leaves
  the cluster, its call history included, as it is.
\<close>

theorem create_app_once:
  "(app_name c = None \<and>
      create_app_result api (calls c) (FlyCreateApp (''dask-'' @ take 8 u)) = Inl e \<longrightarrow>
      create_app api u c =
        (Inl e, c \<lparr> app := Some AppFailed,
                     calls := calls c @ [FlyCreateApp (''dask-'' @ take 8 u)] \<rparr>)) \<and>
   (app_name c = None \<and>
      create_app_result api (calls c) (FlyCreateApp (''dask-'' @ take 8 u)) = Inr created \<longrightarrow>
      create_app api u c =
        (Inr (), c \<lparr> app := Some (AppCreated created), app_name := Some (''dask-'' @ take 8 u),
                      calls := calls c @ [FlyCreateApp (''dask-'' @ take 8 u)] \<rparr>) \<and>
      (\<forall>api' u'. create_app api' u' (snd (create_app api u c)) =
                   (Inr (), snd (create_app api u c))))"
  by (simp add: create_app_unnamed create_app_named)

text \<open>
  C4 at the new cluster, with a provider that rejects the call and with one that accepts
  it.
\<close>

theorem create_app_once_witness:
  "app_name ex_cluster = None \<and>
   create_app_result ex_fly_rejecting (calls ex_cluster) (FlyCreateApp (''dask-'' @ take 8 ''1b9d6bcd-bbfd-4b2d''))
     = Inl (ApiException ''quota'') \<and>
   create_app ex_fly_rejecting ''1b9d6bcd-bbfd-4b2d'' ex_cluster =
     (Inl (ApiException ''quota''),
      ex_cluster \<lparr> app := Some AppFailed, calls := [FlyCreateApp ''dask-1b9d6bcd''] \<rparr>) \<and>
   create_app_result ex_fly_api (calls ex_cluster) (FlyCreateApp (''dask-'' @ take 8 ''1b9d6bcd-bbfd-4b2d''))
     = Inr ''app-object'' \<and>
   create_app ex_fly_api ''1b9d6bcd-bbfd-4b2d'' ex_cluster =
     (Inr (), ex_cluster \<lparr> app := Some (AppCreated ''app-object''),
                           app_name := Some ''dask-1b9d6bcd'',
                           calls := [FlyCreateApp ''dask-1b9d6bcd''] \<rparr>) \<and>
   create_app ex_fly_api ''77777777-0000''
       (snd (create_app ex_fly_api ''1b9d6bcd-bbfd-4b2d'' ex_cluster)) =
     (Inr (), snd (create_app ex_fly_api ''1b9d6bcd-bbfd-4b2d'' ex_cluster))"
proof -
  have n: "app_name ex_cluster = None" and l: "calls ex_cluster = []"
    by (simp_all add: ex_cluster_def)
  have f: "create_app_result ex_fly_rejecting (calls ex_cluster)
             (FlyCreateApp (''dask-'' @ take 8 ''1b9d6bcd-bbfd-4b2d'')) = Inl (ApiException ''quota'')"
    by (simp add: ex_fly_rejecting_def)
  have s: "create_app_result ex_fly_api (calls ex_cluster)
             (FlyCreateApp (''dask-'' @ take 8 ''1b9d6bcd-bbfd-4b2d'')) = Inr ''app-object''"
    by (simp add: ex_fly_api_def)
  from create_app_once [of ex_cluster ex_fly_rejecting "''1b9d6bcd-bbfd-4b2d''" "ApiException ''quota''"] n f
  have 1: "create_app ex_fly_rejecting ''1b9d6bcd-bbfd-4b2d'' ex_cluster =
     (Inl (ApiException ''quota''),
      ex_cluster \<lparr> app := Some AppFailed, calls := [FlyCreateApp ''dask-1b9d6bcd''] \<rparr>)"
    by (simp add: l)
  from create_app_once [of ex_cluster ex_fly_api "''1b9d6bcd-bbfd-4b2d''" _ "''app-object''"] n s
  have both: "create_app ex_fly_api ''1b9d6bcd-bbfd-4b2d'' ex_cluster =
        (Inr (), ex_cluster \<lparr> app := Some (AppCreated ''app-object''),
                      app_name := Some (''dask-'' @ take 8 ''1b9d6bcd-bbfd-4b2d''),
                      calls := calls ex_cluster
                        @ [FlyCreateApp (''dask-'' @ take 8 ''1b9d6bcd-bbfd-4b2d'')] \<rparr>) \<and>
      (\<forall>api' u'. create_app api' u' (snd (create_app ex_fly_api ''1b9d6bcd-bbfd-4b2d'' ex_cluster)) =
                   (Inr (), snd (create_app ex_fly_api ''1b9d6bcd-bbfd-4b2d'' ex_cluster)))"
    by blast
  from both have 2: "create_app ex_fly_api ''1b9d6bcd-bbfd-4b2d'' ex_cluster =
     (Inr (), ex_cluster \<lparr> app := Some (AppCreated ''app-object''),
                           app_name := Some ''dask-1b9d6bcd'',
                           calls := [FlyCreateApp ''dask-1b9d6bcd''] \<rparr>)"
    by (simp add: l)
  from both have 3: "create_app ex_fly_api ''77777777-0000''
       (snd (create_app ex_fly_api ''1b9d6bcd-bbfd-4b2d'' ex_cluster)) =
     (Inr (), snd (create_app ex_fly_api ''1b9d6bcd-bbfd-4b2d'' ex_cluster))"
    by blast
  from n f s 1 2 3 show ?thesis by blast
qed

section \<open>Teardown\<close>

text \<open>
  C5, as the code has it. \<open>destroy_vm\<close> of an instance with no recorded machine, and
  \<open>delete_app\<close> of a cluster with no recorded name, return without a call. Otherwise
  each invocation issues exactly one delete call and raises the call's error if there is
  one; neither method clears what it has deleted (\<open>destroy_vm\<close> assigns nothing,
  \<open>delete_app\<close> changes only the call history), so a repeated invocation issues the call
  again. \<open>IBMCodeEngine.destroy_vm\<close> issues its delete call in every case.
\<close>

theorem destroy_issues_a_call_each_time:
  "(machine self = None \<longrightarrow> destroy_vm api self c = (Inr (), c)) \<and>
   (\<forall>m. machine self = Some m \<longrightarrow>
      calls (snd (destroy_vm api self c)) =
        calls c @ [FlyDeleteMachine (app_name c) (mi_id m) True] \<and>
      fst (destroy_vm api self c) =
        map_sum id (\<lambda>ack. ())
          (delete_machine_result api (calls c) (FlyDeleteMachine (app_name c) (mi_id m) True))) \<and>
   (app_name c = None \<longrightarrow> delete_app api c = (Inr (), c)) \<and>
   (\<forall>n. app_name c = Some n \<longrightarrow>
      snd (delete_app api c) = c \<lparr> calls := calls c @ [FlyDeleteApp n] \<rparr> \<and>
      fst (delete_app api c) =
        map_sum id (\<lambda>ack. ()) (delete_app_result api (calls c) (FlyDeleteApp n))) \<and>
   snd (ibm_destroy_vm svc im log) = log @ [ibm_destroy_call im]"
  by (auto simp: destroy_vm_def delete_app_def ibm_destroy_vm_def Let_def split: sum.splits)

text \<open>
  C5, amended, at a machine that was never created, at the created scheduler machine, at
  the new cluster and at the cluster with its application.
\<close>

theorem destroy_issues_a_call_each_time_witness:
  "machine (ex_machine \<lparr> machine := None \<rparr>) = None \<and>
   destroy_vm ex_fly_api (ex_machine \<lparr> machine := None \<rparr>) ex_cluster_with_app
     = (Inr (), ex_cluster_with_app) \<and>
   machine ex_machine = Some \<lparr> mi_id = ''148e21'', mi_private_ip = ''fdaa:0:1::3'' \<rparr> \<and>
   calls (snd (destroy_vm ex_fly_api ex_machine ex_cluster_with_app)) =
     [FlyDeleteMachine (Some ''dask-1b9d6bcd'') ''148e21'' True] \<and>
   app_name ex_cluster = None \<and>
   delete_app ex_fly_api ex_cluster = (Inr (), ex_cluster) \<and>
   app_name ex_cluster_with_app = Some ''dask-1b9d6bcd'' \<and>
   snd (delete_app ex_fly_api ex_cluster_with_app) =
     ex_cluster_with_app \<lparr> calls := [FlyDeleteApp ''dask-1b9d6bcd''] \<rparr>"
proof -
  have m0: "machine (ex_machine \<lparr> machine := None \<rparr>) = None" by simp
  have m1: "machine ex_machine = Some \<lparr> mi_id = ''148e21'', mi_private_ip = ''fdaa:0:1::3'' \<rparr>"
    by (simp add: ex_machine_def)
  have n0: "app_name ex_cluster = None" by (simp add: ex_cluster_def)
  have n1: "app_name ex_cluster_with_app = Some ''dask-1b9d6bcd''"
    and l1: "calls ex_cluster_with_app = []"
    by (simp_all add: ex_cluster_with_app_def ex_cluster_def)
  note t0 = destroy_issues_a_call_each_time
    [of "ex_machine \<lparr> machine := None \<rparr>" ex_fly_api ex_cluster_with_app]
  note t1 = destroy_issues_a_call_each_time [of ex_machine ex_fly_api ex_cluster_with_app]
  note t2 = destroy_issues_a_call_each_time [of _ ex_fly_api ex_cluster]
  from t0 m0 have 1: "destroy_vm ex_fly_api (ex_machine \<lparr> machine := None \<rparr>) ex_cluster_with_app
     = (Inr (), ex_cluster_with_app)" by blast
  from t1 m1 have "calls (snd (destroy_vm ex_fly_api ex_machine ex_cluster_with_app)) =
     calls ex_cluster_with_app @ [FlyDeleteMachine (app_name ex_cluster_with_app)
        (mi_id \<lparr> mi_id = ''148e21'', mi_private_ip = ''fdaa:0:1::3'' \<rparr>) True]" by blast
  then have 2: "calls (snd (destroy_vm ex_fly_api ex_machine ex_cluster_with_app)) =
     [FlyDeleteMachine (Some ''dask-1b9d6bcd'') ''148e21'' True]"
    by (simp add: n1 l1)
  from t2 n0 have 3: "delete_app ex_fly_api ex_cluster = (Inr (), ex_cluster)" by blast
  from t1 n1 have "snd (delete_app ex_fly_api ex_cluster_with_app) =
     ex_cluster_with_app \<lparr> calls := calls ex_cluster_with_app @ [FlyDeleteApp ''dask-1b9d6bcd''] \<rparr>"
    by blast
  then have 4: "snd (delete_app ex_fly_api ex_cluster_with_app) =
     ex_cluster_with_app \<lparr> calls := [FlyDeleteApp ''dask-1b9d6bcd''] \<rparr>"
    by (simp add: l1)
  from m0 1 m1 2 n0 3 n1 4 show ?thesis by blast
qed

text \<open>
  C5 as stated fails: a second teardown in a row issues the delete calls a second time.
\<close>

theorem second_teardown_calls_again:
  "calls (snd (destroy_vm ex_fly_api ex_machine
                (snd (destroy_vm ex_fly_api ex_machine ex_cluster_with_app)))) =
     [FlyDeleteMachine (Some ''dask-1b9d6bcd'') ''148e21'' True,
      FlyDeleteMachine (Some ''dask-1b9d6bcd'') ''148e21'' True] \<and>
   calls (snd (delete_app ex_fly_api (snd (delete_app ex_fly_api ex_cluster_with_app)))) =
     [FlyDeleteApp ''dask-1b9d6bcd'', FlyDeleteApp ''dask-1b9d6bcd'']"
  by (simp add: destroy_vm_def delete_app_def ex_machine_def ex_cluster_with_app_def
        ex_cluster_def ex_fly_api_def)

section \<open>Worker creation follows the scheduler's address\<close>

text \<open>
  C6. No worker-creation call is issued before the scheduler's address has been resolved
  and recorded. For Fly, \<open>add_worker\<close> called while the cluster records no scheduler
  address fails with \<open>PreconditionError\<close> and leaves the cluster, its call history
  included, as it is; so whenever \<open>add_worker\<close> has issued a call, whatever the other
  tasks and the inherited \<open>start\<close> do, the address was recorded when it was called, and
  the worker was built with that address. For IBM, adding a worker on a cluster whose
  \<open>scheduler_internal_ip\<close> has not been assigned raises in the constructor and issues
  nothing; so whenever adding a worker has issued a call the attribute was assigned
  before. A new Fly cluster records no address; the addresses are recorded only by a
  successful \<open>start_scheduler\<close>: the Fly one is the address of the scheduler machine that
  \<open>create_vm\<close> resolved, the IBM one the internal address of the scheduler, and an IBM
  \<open>start_scheduler\<close> that raises leaves the cluster as it is.
\<close>

theorem worker_calls_follow_scheduler_address:
  "(scheduler_internal_address c = None \<longrightarrow>
      add_worker inh api env cfg u wc keywords kw c = Some (Inl PreconditionError, c)) \<and>
   (\<forall>r c'. add_worker inh api env cfg u wc keywords kw c = Some (r, c') \<and>
        calls c' \<noteq> calls c \<longrightarrow>
        (\<exists>a. scheduler_internal_address c = Some a)) \<and>
   (\<forall>a w. scheduler_internal_address c = Some a \<and>
        FlyMachineWorker_init a c cfg u wc keywords kw = Inr w \<longrightarrow>
        scheduler w = a \<and>
        add_worker inh api env cfg u wc keywords kw c =
          map_option (\<lambda>(r, w', c'). (r, c')) (worker_start inh api env w c)) \<and>
   (ibm_scheduler_internal_ip cl = None \<longrightarrow>
      (\<exists>e. ibm_add_worker auth dumps svc cfg' ikw (cl, log) = Some (Inl e, log))) \<and>
   (\<forall>r log'. ibm_add_worker auth dumps svc cfg' ikw (cl, log) = Some (r, log') \<and>
        log' \<noteq> log \<longrightarrow>
        (\<exists>v. ibm_scheduler_internal_ip cl = Some v)) \<and>
   scheduler_internal_address (FlyMachineCluster_init config_token token_arg name_arg uu) = None \<and>
   (\<forall>sch' c'. start_scheduler api socket_open env sch c0 = Some (Inr (), sch', c') \<longrightarrow>
      (\<exists>a. scheduler_internal_address c' = Some a \<and> address sch' = Some a)) \<and>
   (\<forall>e isch' cl' log'.
      ibm_start_scheduler svc cfg' wait isch (cl, log) = Some (Inl e, isch', cl', log') \<longrightarrow>
      cl' = cl) \<and>
   (\<forall>isch' cl' log'.
      ibm_start_scheduler svc cfg' wait isch (cl, log) = Some (Inr (), isch', cl', log') \<longrightarrow>
      ibm_scheduler_internal_ip cl' = Some (ibm_internal_ip isch'))"
proof -
  have 1: "scheduler_internal_address c = None \<longrightarrow>
      add_worker inh api env cfg u wc keywords kw c = Some (Inl PreconditionError, c)"
    by (simp add: add_worker_def)
  have 2: "\<exists>a. scheduler_internal_address c = Some a"
    if "add_worker inh api env cfg u wc keywords kw c = Some (r, c')" "calls c' \<noteq> calls c"
    for r c'
    using that by (cases "scheduler_internal_address c") (auto simp: add_worker_def)
  have 3: "scheduler w = a \<and>
        add_worker inh api env cfg u wc keywords kw c =
          map_option (\<lambda>(r, w', c'). (r, c')) (worker_start inh api env w c)"
    if "scheduler_internal_address c = Some a"
      "FlyMachineWorker_init a c cfg u wc keywords kw = Inr w" for a w
  proof -
    from FlyMachineWorker_init_command [OF that(2)] have "scheduler w = a" by blast
    moreover from that have "add_worker inh api env cfg u wc keywords kw c =
          map_option (\<lambda>(r, w', c'). (r, c')) (worker_start inh api env w c)"
      by (simp add: add_worker_def split: option.splits prod.splits)
    ultimately show ?thesis by blast
  qed
  have 4: "ibm_scheduler_internal_ip cl = None \<longrightarrow>
      (\<exists>e. ibm_add_worker auth dumps svc cfg' ikw (cl, log) = Some (Inl e, log))"
    by (auto simp: ibm_add_worker_def IBMCodeEngineWorker_init_unstarted split: sum.splits)
  have 5: "\<exists>v. ibm_scheduler_internal_ip cl = Some v"
    if "ibm_add_worker auth dumps svc cfg' ikw (cl, log) = Some (r, log')" "log' \<noteq> log"
    for r log'
    using that 4 by (cases "ibm_scheduler_internal_ip cl") auto
  have 6: "scheduler_internal_address
             (FlyMachineCluster_init config_token token_arg name_arg uu) = None"
    by (simp add: FlyMachineCluster_init_def)
  have 7: "\<exists>a. scheduler_internal_address c' = Some a \<and> address sch' = Some a"
    if "start_scheduler api socket_open env sch c0 = Some (Inr (), sch', c')" for sch' c'
    using that by (rule start_scheduler_Inr)
  have 8: "cl' = cl"
    if "ibm_start_scheduler svc cfg' wait isch (cl, log) = Some (Inl e, isch', cl', log')"
    for e isch' cl' log'
    using that
    by (auto simp: ibm_start_scheduler_def Let_def split: option.splits sum.splits prod.splits)
  have 9: "ibm_scheduler_internal_ip cl' = Some (ibm_internal_ip isch')"
    if "ibm_start_scheduler svc cfg' wait isch (cl, log) = Some (Inr (), isch', cl', log')"
    for isch' cl' log'
    using that
    by (auto simp: ibm_start_scheduler_def Let_def split: option.splits sum.splits prod.splits)
  from 1 2 3 4 5 6 7 8 9 show ?thesis by blast
qed

text \<open>
  C6 at the concrete inputs. On the Fly cluster whose application exists and whose
  scheduler has not started, \<open>add_worker\<close> fails and issues nothing; on the cluster whose
  scheduler has started it issues the worker's \<open>create_machine\<close> after the scheduler's.
  On the IBM cluster with no scheduler, adding a worker raises \<open>AttributeError\<close> and issues
  nothing; on the cluster whose scheduler has started it issues the two creation calls.
\<close>

theorem worker_calls_follow_scheduler_address_witness:
  "scheduler_internal_address ex_cluster_with_app = None \<and>
   add_worker (\<lambda>w c. Some (Inr (), w, c)) ex_fly_api (\<lambda>c. c) ''{}'' ''9f1c2d3e-aaaa''
     ''FlyMachineScheduler'' [] ex_kwargs ex_cluster_with_app =
     Some (Inl PreconditionError, ex_cluster_with_app) \<and>
   scheduler_internal_address ex_cluster_started = Some ''tcp://[fdaa:0:1::3]:8786'' \<and>
   add_worker (\<lambda>w c. Some (Inr (), w, c)) ex_fly_api (\<lambda>c. c) ''{}'' ''9f1c2d3e-aaaa''
     ''FlyMachineScheduler'' [] ex_kwargs ex_cluster_started =
     Some (Inr (),
           ex_cluster_started
             \<lparr> calls := calls ex_cluster_started @
                  [FlyCreateMachine (Some ''dask-1b9d6bcd'') (fly_machine_config ex_worker)
                     (Some ''dask-38b817c1-worker-9f1c2d3e'') (Some ''lhr'')] \<rparr>) \<and>
   ibm_scheduler_internal_ip ex_ibm_cluster = None \<and>
   ibm_add_worker accept_key ex_dumps ex_ibm_service ''{}'' ex_ibm_worker_kwargs
     (ex_ibm_cluster, []) = Some (Inl (AttributeError ''scheduler_internal_ip''), []) \<and>
   ibm_scheduler_internal_ip ex_ibm_cluster_started = Some (Some ''dask-scheduler.internal'') \<and>
   ibm_add_worker accept_key ex_dumps ex_ibm_service ''{}'' ex_ibm_worker_kwargs
     (ex_ibm_cluster_started, []) =
     Some (Inr (None, None),
           [] @ [IbmCreateConfigMap (Some ''project-1'') ''dask-38b817c1-worker-dc95260d''
                   [(''DASK_INTERNAL_INHERIT_CONFIG'', ''{}'')],
                 IbmCreateJobRun (ibm_create_job_run_payload ex_ibm_worker
                   [''python'', ''-m'', ''distributed.cli.dask_spec'',
                    ''ws://dask-scheduler.internal:80'', ''--spec'', ''{...}''])])"
proof -
  have 1: "scheduler_internal_address ex_cluster_with_app = None"
    by (simp add: ex_cluster_with_app_def ex_cluster_def)
  from worker_calls_follow_scheduler_address
         [THEN conjunct1, rule_format, OF 1]
  have 2: "add_worker (\<lambda>w c. Some (Inr (), w, c)) ex_fly_api (\<lambda>c. c) ''{}'' ''9f1c2d3e-aaaa''
     ''FlyMachineScheduler'' [] ex_kwargs ex_cluster_with_app =
     Some (Inl PreconditionError, ex_cluster_with_app)" .
  have 3: "scheduler_internal_address ex_cluster_started = Some ''tcp://[fdaa:0:1::3]:8786''"
    by (simp add: ex_cluster_started_def)
  have 5: "ibm_scheduler_internal_ip ex_ibm_cluster = None"
    by (simp add: ex_ibm_cluster_def)
  have 6: "ibm_add_worker accept_key ex_dumps ex_ibm_service ''{}'' ex_ibm_worker_kwargs
     (ex_ibm_cluster, []) = Some (Inl (AttributeError ''scheduler_internal_ip''), [])"
    by (simp add: ibm_add_worker_def IBMCodeEngineWorker_init_unstarted [OF 5]
          IBMCodeEngine_init_def accept_key_def ex_ibm_worker_kwargs_def)
  have 7: "ibm_scheduler_internal_ip ex_ibm_cluster_started =
             Some (Some ''dask-scheduler.internal'')"
    by (simp add: ex_ibm_cluster_started_def)
  from 1 2 3 ex_add_worker 5 6 7 ex_ibm_add_worker [of "[]"] show ?thesis by blast
qed

section \<open>What fails before a call is made\<close>



section \<open>Overlapping calls of create_app\<close>

text \<open>
  C8, as the code has it. A call of \<open>create_app\<close> that starts while no name is recorded
  issues one create call and is suspended, and the name is still not recorded; a call
  that starts while a name is recorded returns without a call. So calls made one after
  another, the first of them accepted by the provider, issue exactly one create call in
  total. Nothing guards a creation in progress.
\<close>

theorem create_app_in_sequence:
  "(app_name c = None \<longrightarrow>
      task_step api (NotStarted u) c =
        (Suspended (''dask-'' @ take 8 u)
           (create_app_result api (calls c) (FlyCreateApp (''dask-'' @ take 8 u))),
         c \<lparr> calls := calls c @ [FlyCreateApp (''dask-'' @ take 8 u)] \<rparr>)) \<and>
   (app_name c \<noteq> None \<longrightarrow> task_step api (NotStarted u) c = (Returned (Inr ()), c)) \<and>
   (app_name c = None \<and>
      create_app_result api (calls c) (FlyCreateApp (''dask-'' @ take 8 u)) = Inr created \<longrightarrow>
      create_app_calls (create_app_each api (u # us) c) = create_app_calls c + 1 \<and>
      app_name (create_app_each api (u # us) c) = Some (''dask-'' @ take 8 u))"
  by (auto simp: create_app_begin_def Let_def create_app_unnamed create_app_each_named
        create_app_calls_def)

text \<open>
  C8, amended, at the new cluster: three calls in sequence issue one create call.
\<close>

theorem create_app_in_sequence_witness:
  "app_name ex_cluster = None \<and>
   create_app_result ex_fly_api (calls ex_cluster)
     (FlyCreateApp (''dask-'' @ take 8 ''1b9d6bcd-bbfd-4b2d'')) = Inr ''app-object'' \<and>
   create_app_calls ex_cluster = 0 \<and>
   create_app_calls (create_app_each ex_fly_api
     [''1b9d6bcd-bbfd-4b2d'', ''77777777-0000'', ''88888888-0000''] ex_cluster) = 1 \<and>
   task_step ex_fly_api (NotStarted ''1b9d6bcd-bbfd-4b2d'') ex_cluster =
     (Suspended ''dask-1b9d6bcd'' (Inr ''app-object''),
      ex_cluster \<lparr> calls := [FlyCreateApp ''dask-1b9d6bcd''] \<rparr>) \<and>
   app_name ex_cluster_with_app \<noteq> None \<and>
   task_step ex_fly_api (NotStarted ''77777777-0000'') ex_cluster_with_app =
     (Returned (Inr ()), ex_cluster_with_app)"
proof -
  have n: "app_name ex_cluster = None" and l: "calls ex_cluster = []"
    and z: "create_app_calls ex_cluster = 0"
    by (simp_all add: ex_cluster_def create_app_calls_def)
  have s: "create_app_result ex_fly_api (calls ex_cluster)
             (FlyCreateApp (''dask-'' @ take 8 ''1b9d6bcd-bbfd-4b2d'')) = Inr ''app-object''"
    by (simp add: ex_fly_api_def)
  have n1: "app_name ex_cluster_with_app \<noteq> None" by (simp add: ex_cluster_with_app_def)
  note t = create_app_in_sequence [of ex_cluster ex_fly_api "''1b9d6bcd-bbfd-4b2d''"
             "''app-object''" "[''77777777-0000'', ''88888888-0000'']"]
  from t n s z have 1: "create_app_calls (create_app_each ex_fly_api
     [''1b9d6bcd-bbfd-4b2d'', ''77777777-0000'', ''88888888-0000''] ex_cluster) = 1"
    by simp
  from t n have "task_step ex_fly_api (NotStarted ''1b9d6bcd-bbfd-4b2d'') ex_cluster =
        (Suspended (''dask-'' @ take 8 ''1b9d6bcd-bbfd-4b2d'')
           (create_app_result ex_fly_api (calls ex_cluster)
              (FlyCreateApp (''dask-'' @ take 8 ''1b9d6bcd-bbfd-4b2d''))),
         ex_cluster \<lparr> calls := calls ex_cluster
                        @ [FlyCreateApp (''dask-'' @ take 8 ''1b9d6bcd-bbfd-4b2d'')] \<rparr>)"
    by blast
  then have 2: "task_step ex_fly_api (NotStarted ''1b9d6bcd-bbfd-4b2d'') ex_cluster =
     (Suspended ''dask-1b9d6bcd'' (Inr ''app-object''),
      ex_cluster \<lparr> calls := [FlyCreateApp ''dask-1b9d6bcd''] \<rparr>)"
    using s by (simp add: l)
  from create_app_in_sequence [of ex_cluster_with_app ex_fly_api "''77777777-0000''"] n1
  have 3: "task_step ex_fly_api (NotStarted ''77777777-0000'') ex_cluster_with_app =
     (Returned (Inr ()), ex_cluster_with_app)" by blast
  from n s z 1 2 n1 3 show ?thesis by blast
qed

text \<open>
  C8 as stated fails: two calls on a new cluster, the second started before the response
  to the first has arrived, issue two create calls.
\<close>

theorem concurrent_create_app_calls_twice:
  "create_app_calls (snd (run_tasks ex_fly_api [0, 1, 0, 1]
     ([NotStarted ''1b9d6bcd-bbfd-4b2d'', NotStarted ''77777777-0000''], ex_cluster))) = 2 \<and>
   calls (snd (run_tasks ex_fly_api [0, 1, 0, 1]
     ([NotStarted ''1b9d6bcd-bbfd-4b2d'', NotStarted ''77777777-0000''], ex_cluster))) =
     [FlyCreateApp ''dask-1b9d6bcd'', FlyCreateApp ''dask-77777777'']"
  by (simp add: create_app_calls_def create_app_begin_def create_app_resume_def
        ex_cluster_def ex_fly_api_def Let_def)

section \<open>The package list in the environment\<close>

text \<open>
  C9, as the code has it. After a successful construction the entry
  \<open>EXTRA_PIP_PACKAGES\<close> of the caller's dictionary contains \<open>dask[distributed]\<close>: the old
  value with that text appended, or the text after a space when there was no entry; the
  other entries are unchanged. With \<open>env_vars\<close> \<open>None\<close> the construction fails: with
  \<open>TypeError\<close> when the cluster has a token, and with the \<open>ValueError\<close> of the token check
  when it has none, since that check comes first.
\<close>

theorem FlyMachine_init_env_vars:
  "(\<forall>m. FlyMachine_init c cfg kw = Inr m \<longrightarrow>
      (\<exists>d v. kw_env_vars kw = Some d \<and>
         dict_get (env_vars m) ''EXTRA_PIP_PACKAGES'' = Some v \<and>
         str_contains ''dask[distributed]'' v \<and>
         v = (case dict_get d ''EXTRA_PIP_PACKAGES'' of
                Some old \<Rightarrow> old @ ''dask[distributed]''
              | None \<Rightarrow> '' dask[distributed]'') \<and>
         (\<forall>k. k \<noteq> ''EXTRA_PIP_PACKAGES'' \<longrightarrow> dict_get (env_vars m) k = dict_get d k))) \<and>
   (kw_env_vars kw = None \<longrightarrow> (\<exists>e. FlyMachine_init c cfg kw = Inl e)) \<and>
   (kw_env_vars kw = None \<and> api_token c \<noteq> None \<longrightarrow>
      FlyMachine_init c cfg kw = Inl TypeError) \<and>
   (api_token c = None \<longrightarrow>
      FlyMachine_init c cfg kw = Inl (ValueError ''Fly.io API token must be provided''))"
proof -
  have a: "str_contains ''dask[distributed]'' (old @ ''dask[distributed]'')" for old
    using str_contains_append [of "''dask[distributed]''" old "[]"] by simp
  have b: "str_contains ''dask[distributed]'' '' dask[distributed]''"
    using str_contains_append [of "''dask[distributed]''" "'' ''" "[]"] by simp
  show ?thesis
    by (auto simp: FlyMachine_init_def dict_get_set dict_get_set_other a b
             split: if_splits option.splits)
qed

text \<open>
  C9, amended, at the cluster with a token: an existing entry \<open>numpy\<close> becomes
  \<open>numpydask[distributed]\<close>, and \<open>env_vars = None\<close> raises \<open>TypeError\<close>; at the cluster
  without a token the construction raises the \<open>ValueError\<close>.
\<close>

theorem FlyMachine_init_env_vars_witness:
  "map_sum id env_vars (FlyMachine_init ex_cluster ''{}'' ex_kwargs) =
     Inr [(''EXTRA_PIP_PACKAGES'', ''numpydask[distributed]'')] \<and>
   str_contains ''dask[distributed]'' ''numpydask[distributed]'' \<and>
   kw_env_vars (ex_kwargs \<lparr> kw_env_vars := None \<rparr>) = None \<and>
   api_token ex_cluster \<noteq> None \<and>
   FlyMachine_init ex_cluster ''{}'' (ex_kwargs \<lparr> kw_env_vars := None \<rparr>) =
     Inl TypeError \<and>
   api_token ex_cluster_no_token = None \<and>
   FlyMachine_init ex_cluster_no_token ''{}'' ex_kwargs =
     Inl (ValueError ''Fly.io API token must be provided'')"
proof -
  have 1: "map_sum id env_vars (FlyMachine_init ex_cluster ''{}'' ex_kwargs) =
     Inr [(''EXTRA_PIP_PACKAGES'', ''numpydask[distributed]'')]"
    by (simp add: FlyMachine_init_def ex_cluster_def ex_kwargs_def)
  have 2: "str_contains ''dask[distributed]'' ''numpydask[distributed]''" by simp
  have 3: "kw_env_vars (ex_kwargs \<lparr> kw_env_vars := None \<rparr>) = None" by simp
  have 4: "api_token ex_cluster \<noteq> None" by (simp add: ex_cluster_def)
  from FlyMachine_init_env_vars [of ex_cluster "''{}''" "ex_kwargs \<lparr> kw_env_vars := None \<rparr>"] 3 4
  have 5: "FlyMachine_init ex_cluster ''{}'' (ex_kwargs \<lparr> kw_env_vars := None \<rparr>) =
     Inl TypeError" by blast
  have 6: "api_token ex_cluster_no_token = None" by (simp add: ex_cluster_no_token_def)
  from FlyMachine_init_env_vars [of ex_cluster_no_token "''{}''" ex_kwargs] 6
  have 7: "FlyMachine_init ex_cluster_no_token ''{}'' ex_kwargs =
     Inl (ValueError ''Fly.io API token must be provided'')" by blast
  from 1 2 3 4 5 6 7 show ?thesis by blast
qed

text \<open>
  C9 as stated fails: with \<open>env_vars\<close> \<open>None\<close> and no token, the error is the token's
  \<open>ValueError\<close>, not a \<open>TypeError\<close>.
\<close>

theorem missing_token_precedes_env_vars:
  "kw_env_vars (ex_kwargs \<lparr> kw_env_vars := None \<rparr>) = None \<and>
   FlyMachine_init ex_cluster_no_token ''{}'' (ex_kwargs \<lparr> kw_env_vars := None \<rparr>) =
     Inl (ValueError ''Fly.io API token must be provided'')"
  by (simp add: FlyMachine_init_def ex_cluster_no_token_def)

section \<open>IBM teardown is chosen by the instance name\<close>

text \<open>
  C10. \<open>IBMCodeEngine.destroy_vm\<close> issues exactly one call to the service, and the call is
  chosen from the name alone: \<open>delete_job_run\<close> when the name contains \<open>worker\<close>,
  \<open>delete_app\<close> otherwise, in both cases for the instance's own project and name.
\<close>

theorem ibm_destroy_vm_by_name:
  "snd (ibm_destroy_vm svc m log) = log @
     [if str_contains ''worker'' (ibm_name m)
      then IbmDeleteJobRun (ibm_project_id m) (ibm_name m)
      else IbmDeleteApp (ibm_project_id m) (ibm_name m)]"
  by (simp add: ibm_destroy_vm_def ibm_destroy_call_def split: sum.splits)

end
